theory Spec2Isabelle
  imports Complex_Main "HOL-Library.AList"
begin

section \<open>Common values\<close>

text \<open>
  JavaScript numbers are idealised as reals: no statement below depends on rounding.
  A thrown exception is a value: \<open>Error\<close> is \<open>throw new Error(msg)\<close>, \<open>TypeError\<close> is
  the engine's own error for a property read on \<open>undefined\<close> or \<open>null\<close>.
\<close>

datatype error = Error string | TypeError string

section \<open>JavaScript values and the DOM\<close>

text \<open>
  A field that may hold \<open>undefined\<close>, \<open>null\<close>, a boolean or a string is a \<open>jsval\<close>;
  \<open>===\<close> on such values is equality of the datatype. \<open>truthy\<close> is the test an
  \<open>if\<close> applies, \<open>js_and\<close> is the operator \<open>&&\<close> (its result is an operand, not a
  boolean).
\<close>

datatype jsval = JUndefined | JNull | JBool bool | JStr string

fun truthy :: "jsval \<Rightarrow> bool" where
  "truthy JUndefined = False"
| "truthy JNull = False"
| "truthy (JBool b) = b"
| "truthy (JStr s) = (s \<noteq> [])"

definition js_and :: "jsval \<Rightarrow> jsval \<Rightarrow> jsval" where
  "js_and a b = (if truthy a then b else a)"

text \<open>
  Arrays of four numbers (\<open>data.rect\<close>, \<open>page.view\<close>) and of six
  (\<open>viewport.transform\<close>), as the core produces them; \<open>r0 .. r3\<close> read the entries
  \<open>[0] .. [3]\<close>.
\<close>

datatype rect4 = Rect4 (r0: real) (r1: real) (r2: real) (r3: real)

datatype matrix6 = Matrix6 (m0: real) (m1: real) (m2: real) (m3: real) (m4: real) (m5: real)

text \<open>
  A style value keeps the number it was built from: \<open>Px x\<close> is the string \<open>x + 'px'\<close>,
  \<open>Origin x y\<close> is \<open>x + 'px ' + y + 'px'\<close>, \<open>Radius h v\<close> is \<open>h + 'px / ' + v + 'px'\<close>,
  \<open>MatrixOf t\<close> is \<open>'matrix(' + t.join(',') + ')'\<close>, \<open>Rgb r g b\<close> is what
  \<open>Util.makeCssRgb\<close> returns. \<open>Append1 z\<close> and \<open>Minus1 z\<close> are the results of
  \<open>z += 1\<close> and \<open>z -= 1\<close> on a style string, left uninterpreted.
\<close>

datatype cssval =
    Px real
  | Origin real real
  | Radius real real
  | MatrixOf matrix6
  | Rgb int int int
  | Keyword string
  | Number real
  | Append1 "cssval option"
  | Minus1 "cssval option"

datatype attrval = AStr string | ANum real | ATrue | AEncoded string

text \<open>
  An element: tag, attributes, inline style and element children. Properties that
  reflect attributes (\<open>type\<close>, \<open>name\<close>, \<open>disabled\<close>, \<open>title\<close>) are kept as
  attributes. Class names, text content and event listeners take no part in any property
  below and are left out.
\<close>

datatype elem =
  Elem (tagName: string) (attrs: "(string \<times> attrval) list")
       (css: "(string \<times> cssval) list") (childNodes: "elem list")

definition createElement :: "string \<Rightarrow> elem" where
  "createElement t = Elem t [] [] []"

fun setAttribute :: "string \<Rightarrow> attrval \<Rightarrow> elem \<Rightarrow> elem" where
  "setAttribute k v (Elem t a s ks) = Elem t (AList.update k v a) s ks"

fun removeAttribute :: "string \<Rightarrow> elem \<Rightarrow> elem" where
  "removeAttribute k (Elem t a s ks) = Elem t (AList.delete k a) s ks"

definition getAttribute :: "string \<Rightarrow> elem \<Rightarrow> attrval option" where
  "getAttribute k e = map_of (attrs e) k"

definition hasAttribute :: "string \<Rightarrow> elem \<Rightarrow> bool" where
  "hasAttribute k e = (map_of (attrs e) k \<noteq> None)"

fun setStyle :: "string \<Rightarrow> cssval \<Rightarrow> elem \<Rightarrow> elem" where
  "setStyle k v (Elem t a s ks) = Elem t a (AList.update k v s) ks"

fun removeStyle :: "string \<Rightarrow> elem \<Rightarrow> elem" where
  "removeStyle k (Elem t a s ks) = Elem t a (AList.delete k s) ks"

definition getStyle :: "string \<Rightarrow> elem \<Rightarrow> cssval option" where
  "getStyle k e = map_of (css e) k"

fun appendChild :: "elem \<Rightarrow> elem \<Rightarrow> elem" where
  "appendChild child (Elem t a s ks) = Elem t a s (ks @ [child])"

text \<open>
  The assignment \<open>element.style[k] = x + 'px'\<close>. The CSSOM discards a declaration it
  cannot parse and leaves the style as it was; a negative length is no value of
  \<open>width\<close>, \<open>height\<close>, \<open>font-size\<close> or \<open>border-width\<close> (it is one of \<open>left\<close> and
  \<open>top\<close>).
\<close>

definition nonnegative_length :: "string \<Rightarrow> bool" where
  "nonnegative_length k = (k \<in> set [''width'', ''height'', ''fontSize'', ''borderWidth''])"

definition setLength :: "string \<Rightarrow> real \<Rightarrow> elem \<Rightarrow> elem" where
  "setLength k x e = (if nonnegative_length k \<and> x < 0 then e else setStyle k (Px x) e)"

text \<open>
  \<open>parseFloat\<close> of a style string written as \<open>x + 'px'\<close> gives \<open>x\<close> back; of anything
  else it is \<open>NaN\<close>, here \<open>None\<close>.
\<close>

fun parseFloat :: "cssval option \<Rightarrow> real option" where
  "parseFloat (Some (Px x)) = Some x"
| "parseFloat (Some (Number x)) = Some x"
| "parseFloat _ = None"

text \<open>
  \<open>x | 0\<close>: the number truncated towards zero and wrapped to a signed 32-bit integer.
\<close>

definition toInt32 :: "real \<Rightarrow> int" where
  "toInt32 x =
     (let t = (if x \<ge> 0 then \<lfloor>x\<rfloor> else \<lceil>x\<rceil>);
          m = t mod 4294967296
      in if m \<ge> 2147483648 then m - 4294967296 else m)"

definition makeCssRgb :: "real \<times> real \<times> real \<Rightarrow> cssval" where
  "makeCssRgb c = (case c of (r, g, b) \<Rightarrow> Rgb (toInt32 r) (toInt32 g) (toInt32 b))"

text \<open>
  \<open>layer.querySelector('[data-annotation-id="' + id + '"]')\<close>: the first element in
  document order that carries the attribute with that value. Only \<open>_createContainer\<close>
  sets this attribute, on the sections that \<open>render\<close> appends to the layer div itself, so
  the search is over the children of the div. The ids are the object references of the
  core (digits and a letter), which the selector string takes as they are.
\<close>

definition has_annotation_id :: "string \<Rightarrow> elem \<Rightarrow> bool" where
  "has_annotation_id ident e = (getAttribute ''data-annotation-id'' e = Some (AStr ident))"

definition querySelector :: "elem \<Rightarrow> string \<Rightarrow> elem option" where
  "querySelector layer ident = find (has_annotation_id ident) (childNodes layer)"

section \<open>Annotation data\<close>

text \<open>
  The members of \<open>AnnotationType\<close>, \<open>AnnotationBorderStyleType\<close> and
  \<open>AnnotationCheckboxType\<close> (declared in \<open>shared/util\<close>) that this code names are
  constructors; any other value of the field is \<open>OtherType n\<close>, \<open>OtherStyle n\<close> or
  \<open>OtherCheck n\<close>.
\<close>

datatype AnnotationBorderStyleType =
  SOLID | DASHED | BEVELED | INSET | UNDERLINE | OtherStyle nat

datatype AnnotationType =
    TEXT | LINK | FREETEXT | LINE | SQUARE | CIRCLE | POLYGON | POLYLINE | HIGHLIGHT
  | UNDERLINE | SQUIGGLY | STRIKEOUT | STAMP | CARET | INK | POPUP | FILEATTACHMENT
  | WIDGET | OtherType nat

datatype AnnotationCheckboxType =
  CHECK | CIRCLE | CROSS | DIAMOND | SQUARE | STAR | OtherCheck nat

record border_style =
  width :: real
  style :: AnnotationBorderStyleType
  horizontalCornerRadius :: real
  verticalCornerRadius :: real

text \<open>
  The fields of an annotation's \<open>data\<close> that the functions below read. \<open>rect\<close> is a
  reference into the store of arrays (an index): the array is shared with the caller, so
  a write through it would be seen by later calls.
\<close>

record annotation_data =
  data_id :: string
  annotationType :: AnnotationType
  fieldType :: jsval
  radioButton :: bool
  checkBox :: bool
  rect :: nat
  borderStyle :: border_style
  borderColor :: "(real \<times> real \<times> real) option"
  color :: "(real \<times> real \<times> real) option"
  hasPopup :: bool
  title :: string
  contents :: string
  url :: jsval
  dest :: jsval
  action :: jsval
  hasAppearance :: bool
  fieldValue :: jsval
  buttonValue :: jsval
  fieldName :: string
  readOnly :: bool
  alternativeText :: string
  radioButtonType :: AnnotationCheckboxType
  parentId :: string
  parentType :: string

text \<open>
  The three copies of the annotation layer in the repository:
  \<open>src/display/annotation_layer.js\<close> (\<open>Display\<close>), the copy that scales positions by
  the viewport (\<open>Scaled\<close>, unnamed part 000) and the copy with \<open>AnnotationStorage\<close>
  (\<open>Stored\<close>, unnamed part 001). Where a function below takes a \<open>version\<close>, the copies
  differ only in the places the definition branches on it.
\<close>

datatype version = Display | Scaled | Stored

record parameters =
  data :: annotation_data
  page_view :: rect4
  viewport_transform :: matrix6
  renderInteractiveForms :: bool

datatype kind =
    AnnotationElement | LinkAnnotationElement | TextAnnotationElement
  | WidgetAnnotationElement | TextWidgetAnnotationElement
  | RadioButtonWidgetAnnotationElement | CheckboxWidgetAnnotationElement
  | PushButtonWidgetAnnotationElement | ChoiceWidgetAnnotationElement
  | PopupAnnotationElement | FreeTextAnnotationElement | LineAnnotationElement
  | SquareAnnotationElement | CircleAnnotationElement | PolylineAnnotationElement
  | CaretAnnotationElement | InkAnnotationElement | PolygonAnnotationElement
  | HighlightAnnotationElement | UnderlineAnnotationElement | SquigglyAnnotationElement
  | StrikeOutAnnotationElement | StampAnnotationElement | FileAttachmentAnnotationElement

record element = parameters +
  cls :: kind
  isRenderable :: bool
  container :: "elem option"

section \<open>Creating annotation elements\<close>

text \<open>
  \<open>Util.normalizeRect\<close> (in \<open>shared/util\<close>) is a parameter. It receives a reference to an
  array in the store and returns a reference to the normalised array together with the
  store it leaves behind, so it is free to work in place or on a copy.
\<close>

type_synonym normalizeRect_fn = "rect4 list \<Rightarrow> nat \<Rightarrow> nat \<times> rect4 list"

definition border_line_style :: "version \<Rightarrow> AnnotationBorderStyleType \<Rightarrow> elem \<Rightarrow> elem" where
  "border_line_style v st c =
     (case st of
        SOLID \<Rightarrow> setStyle ''borderStyle'' (Keyword ''solid'') c
      | DASHED \<Rightarrow> setStyle ''borderStyle'' (Keyword ''dashed'') c
      | BEVELED \<Rightarrow>
          if v = Display then c else setStyle ''borderStyle'' (Keyword ''solid'') c
      | INSET \<Rightarrow>
          if v = Display then c else setStyle ''borderStyle'' (Keyword ''solid'') c
      | AnnotationBorderStyleType.UNDERLINE \<Rightarrow>
          setStyle ''borderBottomStyle'' (Keyword ''solid'') c
      | OtherStyle n \<Rightarrow> c)"

definition border_drawn :: "annotation_data \<Rightarrow> bool \<Rightarrow> bool" where
  "border_drawn d ignoreBorder =
     (\<not> ignoreBorder \<and> width (borderStyle d) > 0 \<and> borderColor d \<noteq> None)"

definition border_styles :: "version \<Rightarrow> annotation_data \<Rightarrow> elem \<Rightarrow> elem" where
  "border_styles v d c =
     (let bs = borderStyle d;
          c1 = setLength ''borderWidth'' (width bs) c;
          horizontalRadius = horizontalCornerRadius bs;
          verticalRadius = verticalCornerRadius bs;
          c2 = (if horizontalRadius > 0 \<or> verticalRadius > 0
                then (if horizontalRadius < 0 \<or> verticalRadius < 0 then c1
                      else setStyle ''borderRadius''
                             (Radius horizontalRadius verticalRadius) c1)
                else c1);
          c3 = border_line_style v (style bs) c2
      in case borderColor d of
           Some col \<Rightarrow> setStyle ''borderColor'' (makeCssRgb col) c3
         | None \<Rightarrow>
             (case color d of
                Some col \<Rightarrow> setStyle ''borderColor'' (makeCssRgb col) c3
              | None \<Rightarrow> setStyle ''borderWidth'' (Number 0) c3))"

text \<open>
  \<open>_createContainer\<close>. The array literal handed to \<open>Util.normalizeRect\<close> is a new array
  (appended to the store); \<open>data.rect\<close> is only read. The \<open>Scaled\<close> copy sets no
  transform and multiplies the position by \<open>viewport.transform[0]\<close> and \<open>[3]\<close>. The four
  lengths are assigned as strings, so a width or height that comes out negative (an
  annotation smaller than twice its border, or a negative scale) is discarded and the
  container is left without it; so is a border radius with a negative part.
\<close>

definition createContainer ::
  "version \<Rightarrow> normalizeRect_fn \<Rightarrow> rect4 list \<Rightarrow> parameters \<Rightarrow> bool \<Rightarrow> elem \<times> rect4 list" where
  "createContainer v normalizeRect heap p ignoreBorder =
     (let d = data p; view = page_view p; transform = viewport_transform p;
          data_rect = heap ! rect d;
          width0 = r2 data_rect - r0 data_rect;
          height0 = r3 data_rect - r1 data_rect;
          c1 = setAttribute ''data-annotation-id'' (AStr (data_id d))
                 (createElement ''section'');
          literal = Rect4 (r0 data_rect) (r3 view - r1 data_rect + r1 view)
                          (r2 data_rect) (r3 view - r3 data_rect + r1 view);
          (ref, heap') = normalizeRect (heap @ [literal]) (length heap);
          nrect = heap' ! ref;
          c2 = (if v = Scaled then c1
                else setStyle ''transformOrigin'' (Origin (- r0 nrect) (- r1 nrect))
                       (setStyle ''transform'' (MatrixOf transform) c1));
          drawn = border_drawn d ignoreBorder;
          shrink = (drawn \<and> style (borderStyle d) \<noteq> AnnotationBorderStyleType.UNDERLINE);
          width1 = (if shrink then width0 - 2 * width (borderStyle d) else width0);
          height1 = (if shrink then height0 - 2 * width (borderStyle d) else height0);
          c3 = (if drawn then border_styles v d c2 else c2);
          scaleX = m0 transform;
          scaleY = m3 transform;
          c4 = (if v = Scaled
                then setAttribute ''scale'' (ANum scaleX)
                       (setLength ''height'' (height1 * scaleY)
                       (setLength ''width'' (width1 * scaleX)
                       (setLength ''top'' (r1 nrect * scaleY)
                       (setLength ''left'' (r0 nrect * scaleX) c3))))
                else setLength ''height'' height1
                       (setLength ''width'' width1
                       (setLength ''top'' (r1 nrect)
                       (setLength ''left'' (r0 nrect) c3))))
      in (c4, heap'))"

text \<open>
  The constructors: what each class passes to the base constructor as \<open>isRenderable\<close>
  and \<open>ignoreBorder\<close>. \<open>WidgetAnnotationElement\<close> has no constructor of its own and
  \<open>PushButtonWidgetAnnotationElement\<close> inherits the one of \<open>LinkAnnotationElement\<close>.
  The side effects of \<open>FileAttachmentAnnotationElement\<close>'s constructor on the link
  service are outside the model; what it reads of \<open>data.file\<close> is in the section on
  data with fields missing.
\<close>

definition has_popup_or_text :: "annotation_data \<Rightarrow> bool" where
  "has_popup_or_text d = (hasPopup d \<or> title d \<noteq> [] \<or> contents d \<noteq> [])"

definition link_renderable :: "version \<Rightarrow> annotation_data \<Rightarrow> bool" where
  "link_renderable v d =
     (if v = Display then True else truthy (url d) \<or> truthy (dest d) \<or> truthy (action d))"

fun constructor_args :: "version \<Rightarrow> parameters \<Rightarrow> kind \<Rightarrow> bool \<times> bool" where
  "constructor_args v p AnnotationElement = (False, False)"
| "constructor_args v p LinkAnnotationElement = (link_renderable v (data p), False)"
| "constructor_args v p TextAnnotationElement = (has_popup_or_text (data p), False)"
| "constructor_args v p WidgetAnnotationElement = (False, False)"
| "constructor_args v p TextWidgetAnnotationElement =
     (renderInteractiveForms p
        \<or> (\<not> hasAppearance (data p) \<and> truthy (fieldValue (data p))), False)"
| "constructor_args v p RadioButtonWidgetAnnotationElement = (renderInteractiveForms p, False)"
| "constructor_args v p CheckboxWidgetAnnotationElement = (renderInteractiveForms p, False)"
| "constructor_args v p PushButtonWidgetAnnotationElement =
     (link_renderable v (data p), False)"
| "constructor_args v p ChoiceWidgetAnnotationElement = (renderInteractiveForms p, False)"
| "constructor_args v p PopupAnnotationElement =
     (title (data p) \<noteq> [] \<or> contents (data p) \<noteq> [], False)"
| "constructor_args v p FileAttachmentAnnotationElement = (True, False)"
| "constructor_args v p k = (has_popup_or_text (data p), True)"

definition new_element ::
  "version \<Rightarrow> normalizeRect_fn \<Rightarrow> rect4 list \<Rightarrow> parameters \<Rightarrow> kind \<Rightarrow> element \<times> rect4 list" where
  "new_element v normalizeRect heap p k =
     (case constructor_args v p k of
        (renderable, ignoreBorder) \<Rightarrow>
          if renderable
          then (case createContainer v normalizeRect heap p ignoreBorder of
                  (c, heap') \<Rightarrow>
                    (\<lparr>data = data p, page_view = page_view p,
                      viewport_transform = viewport_transform p,
                      renderInteractiveForms = renderInteractiveForms p,
                      cls = k, isRenderable = True, container = Some c\<rparr>, heap'))
          else (\<lparr>data = data p, page_view = page_view p,
                 viewport_transform = viewport_transform p,
                 renderInteractiveForms = renderInteractiveForms p,
                 cls = k, isRenderable = False, container = None\<rparr>, heap))"

text \<open>
  \<open>AnnotationElementFactory.create\<close>: the class chosen by the two switches. The
  \<open>Display\<close> copy names fewer annotation types and has no push button class.
\<close>

definition widget_class :: "version \<Rightarrow> annotation_data \<Rightarrow> kind" where
  "widget_class v d =
     (if fieldType d = JStr ''Tx'' then TextWidgetAnnotationElement
      else if fieldType d = JStr ''Btn'' then
        (if radioButton d then RadioButtonWidgetAnnotationElement
         else if checkBox d then CheckboxWidgetAnnotationElement
         else if v = Display then WidgetAnnotationElement
         else PushButtonWidgetAnnotationElement)
      else if fieldType d = JStr ''Ch'' then ChoiceWidgetAnnotationElement
      else WidgetAnnotationElement)"

definition factory_class :: "version \<Rightarrow> annotation_data \<Rightarrow> kind" where
  "factory_class v d =
     (case annotationType d of
        LINK \<Rightarrow> LinkAnnotationElement
      | TEXT \<Rightarrow> TextAnnotationElement
      | WIDGET \<Rightarrow> widget_class v d
      | POPUP \<Rightarrow> PopupAnnotationElement
      | FREETEXT \<Rightarrow> if v = Display then AnnotationElement else FreeTextAnnotationElement
      | LINE \<Rightarrow> LineAnnotationElement
      | AnnotationType.SQUARE \<Rightarrow> if v = Display then AnnotationElement else SquareAnnotationElement
      | AnnotationType.CIRCLE \<Rightarrow> if v = Display then AnnotationElement else CircleAnnotationElement
      | POLYLINE \<Rightarrow> if v = Display then AnnotationElement else PolylineAnnotationElement
      | CARET \<Rightarrow> if v = Display then AnnotationElement else CaretAnnotationElement
      | INK \<Rightarrow> if v = Display then AnnotationElement else InkAnnotationElement
      | POLYGON \<Rightarrow> if v = Display then AnnotationElement else PolygonAnnotationElement
      | HIGHLIGHT \<Rightarrow> HighlightAnnotationElement
      | AnnotationType.UNDERLINE \<Rightarrow> UnderlineAnnotationElement
      | SQUIGGLY \<Rightarrow> SquigglyAnnotationElement
      | STRIKEOUT \<Rightarrow> StrikeOutAnnotationElement
      | STAMP \<Rightarrow> if v = Display then AnnotationElement else StampAnnotationElement
      | FILEATTACHMENT \<Rightarrow> FileAttachmentAnnotationElement
      | OtherType n \<Rightarrow> AnnotationElement)"

definition create ::
  "version \<Rightarrow> normalizeRect_fn \<Rightarrow> rect4 list \<Rightarrow> parameters \<Rightarrow> element \<times> rect4 list" where
  "create v normalizeRect heap p = new_element v normalizeRect heap p (factory_class v (data p))"

subsection \<open>Data with fields missing\<close>

text \<open>
  The definitions above take annotation data that carries every field the constructors
  read, as the core produces it. Nothing in these files checks that. \<open>received\<close> says
  which of the three fields whose absence makes a property read throw are there:
  \<open>data.rect\<close>, \<open>data.borderStyle\<close>, and \<open>data.file\<close> with the value of its \<open>filename\<close>;
  the fields of \<open>annotation_data\<close> hold the values of those that are there, and the
  value of a field that is missing is never used. Every other field is read with \<open>||\<close>,
  \<open>!!\<close> or a comparison, which do not throw on \<open>undefined\<close>.
\<close>

record received =
  has_rect :: bool
  has_borderStyle :: bool
  data_file :: "jsval option"

text \<open>
  \<open>_createContainer\<close> reads \<open>data.rect[2]\<close> first, before anything is written, and
  \<open>data.borderStyle.width\<close> after the call of \<open>Util.normalizeRect\<close>, when the border is not
  ignored.
\<close>

definition createContainer_received ::
  "version \<Rightarrow> normalizeRect_fn \<Rightarrow> rect4 list \<Rightarrow> parameters \<Rightarrow> received \<Rightarrow> bool
     \<Rightarrow> (error + elem) \<times> rect4 list" where
  "createContainer_received v normalizeRect heap p r ignoreBorder =
     (if \<not> has_rect r
      then (Inl (TypeError ''Cannot read property 2 of undefined''), heap)
      else
        (case createContainer v normalizeRect heap p ignoreBorder of
           (c, heap') \<Rightarrow>
             if \<not> ignoreBorder \<and> \<not> has_borderStyle r
             then (Inl (TypeError ''Cannot read property width of undefined''), heap')
             else (Inr c, heap')))"

text \<open>
  The constructor of \<open>AnnotationElement\<close>, reached through \<open>super\<close> with the two
  arguments of the class.
\<close>

definition super_received ::
  "version \<Rightarrow> normalizeRect_fn \<Rightarrow> rect4 list \<Rightarrow> parameters \<Rightarrow> received \<Rightarrow> kind
     \<Rightarrow> (error + element) \<times> rect4 list" where
  "super_received v normalizeRect heap p r k =
     (case constructor_args v p k of
        (renderable, ignoreBorder) \<Rightarrow>
          if renderable
          then (case createContainer_received v normalizeRect heap p r ignoreBorder of
                  (Inl e, heap') \<Rightarrow> (Inl e, heap')
                | (Inr c, heap') \<Rightarrow>
                    (Inr \<lparr>data = data p, page_view = page_view p,
                          viewport_transform = viewport_transform p,
                          renderInteractiveForms = renderInteractiveForms p,
                          cls = k, isRenderable = True, container = Some c\<rparr>, heap'))
          else (Inr \<lparr>data = data p, page_view = page_view p,
                     viewport_transform = viewport_transform p,
                     renderInteractiveForms = renderInteractiveForms p,
                     cls = k, isRenderable = False, container = None\<rparr>, heap))"

text \<open>
  \<open>new\<close> of a class. The constructor of \<open>FileAttachmentAnnotationElement\<close> goes on
  after \<open>super\<close>: it reads \<open>this.data.file\<close> and takes \<open>filename\<close> from it, which throws
  when \<open>data.file\<close> is \<open>undefined\<close>, and hands the file name to \<open>getFilenameFromUrl\<close>,
  \<open>stringToPDFString\<close> and the link service. Those three are outside these files: the
  parameter \<open>announce\<close> stands for them, with the error they throw on this file name, if
  any.
\<close>

definition new_element_received ::
  "version \<Rightarrow> normalizeRect_fn \<Rightarrow> (jsval \<Rightarrow> error option) \<Rightarrow> rect4 list \<Rightarrow> parameters
     \<Rightarrow> received \<Rightarrow> kind \<Rightarrow> (error + element) \<times> rect4 list" where
  "new_element_received v normalizeRect announce heap p r k =
     (case super_received v normalizeRect heap p r k of
        (Inl e, heap') \<Rightarrow> (Inl e, heap')
      | (Inr el, heap') \<Rightarrow>
          if k = FileAttachmentAnnotationElement
          then (case data_file r of
                  None \<Rightarrow>
                    (Inl (TypeError ''Cannot read property filename of undefined''), heap')
                | Some filename \<Rightarrow>
                    (case announce filename of
                       Some e \<Rightarrow> (Inl e, heap')
                     | None \<Rightarrow> (Inr el, heap')))
          else (Inr el, heap'))"

definition create_received ::
  "version \<Rightarrow> normalizeRect_fn \<Rightarrow> (jsval \<Rightarrow> error option) \<Rightarrow> rect4 list \<Rightarrow> parameters
     \<Rightarrow> received \<Rightarrow> (error + element) \<times> rect4 list" where
  "create_received v normalizeRect announce heap p r =
     new_element_received v normalizeRect announce heap p r (factory_class v (data p))"

section \<open>Rendering the layer\<close>

text \<open>
  Modelled from the spec: \<open>AnnotationStorage.getOrCreateValue\<close>
  (\<open>display/annotation_storage.js\<close> is not among the sources). It returns the value
  stored under the key; when the key has none, the default becomes the stored value (the
  "initial stored value") and is returned.
\<close>

type_synonym storage = "string \<rightharpoonup> jsval"

definition getOrCreateValue :: "storage \<Rightarrow> string \<Rightarrow> jsval \<Rightarrow> jsval \<times> storage" where
  "getOrCreateValue st key defaultValue =
     (case st key of
        Some v \<Rightarrow> (v, st)
      | None \<Rightarrow> (defaultValue, st(key \<mapsto> defaultValue)))"

text \<open>
  The value a checkbox or radio button starts from, as the source writes it:
  \<open>data.fieldValue && data.fieldValue !== 'Off'\<close> and
  \<open>data.fieldValue === data.buttonValue\<close>.
\<close>

definition checkbox_default :: "annotation_data \<Rightarrow> jsval" where
  "checkbox_default d = js_and (fieldValue d) (JBool (fieldValue d \<noteq> JStr ''Off''))"

definition radio_default :: "annotation_data \<Rightarrow> jsval" where
  "radio_default d = JBool (fieldValue d = buttonValue d)"

definition set_disabled :: "bool \<Rightarrow> elem \<Rightarrow> elem" where
  "set_disabled b e = (if b then setAttribute ''disabled'' ATrue e else e)"

definition set_checked :: "bool \<Rightarrow> elem \<Rightarrow> elem" where
  "set_checked b e = (if b then setAttribute ''checked'' ATrue e else e)"

definition string_or_empty :: "jsval \<Rightarrow> string" where
  "string_or_empty x = (case x of JStr s \<Rightarrow> s | _ \<Rightarrow> [])"

text \<open>
  The \<open>input\<close> element of a checkbox. \<open>Display\<close> and \<open>Stored\<close> mark it with
  \<open>setAttribute('checked', true)\<close>; \<open>Scaled\<close> assigns the property \<open>checked\<close>, kept here
  under the same name.
\<close>

definition checkbox_input :: "version \<Rightarrow> annotation_data \<Rightarrow> jsval \<Rightarrow> elem" where
  "checkbox_input v d value =
     (case v of
        Display \<Rightarrow>
          set_checked (truthy value)
            (setAttribute ''type'' (AStr ''checkbox'')
            (set_disabled (readOnly d)
            (setAttribute ''name'' (AEncoded (fieldName d)) (createElement ''input''))))
      | Scaled \<Rightarrow>
          set_checked (truthy value)
            (setAttribute ''type'' (AStr ''checkbox'')
            (set_disabled (readOnly d)
            (setAttribute ''annotation-value''
               (if truthy (buttonValue d) then AEncoded (string_or_empty (buttonValue d))
                else AStr [])
            (setAttribute ''annotation-name'' (AEncoded (fieldName d))
               (createElement ''input'')))))
      | Stored \<Rightarrow>
          set_checked (truthy value)
            (setAttribute ''name'' (AStr (fieldName d))
            (setAttribute ''type'' (AStr ''checkbox'')
            (set_disabled (readOnly d)
            (setAttribute ''annotation-value''
               (if truthy (buttonValue d) then AEncoded (string_or_empty (buttonValue d))
                else AStr [])
            (setAttribute ''annotation-name'' (AEncoded (fieldName d))
               (createElement ''input'')))))))"

definition radio_input :: "version \<Rightarrow> annotation_data \<Rightarrow> jsval \<Rightarrow> elem" where
  "radio_input v d value =
     (case v of
        Display \<Rightarrow>
          set_checked (truthy value)
            (setAttribute ''type'' (AStr ''radio'')
            (set_disabled (readOnly d)
            (setAttribute ''name'' (AEncoded (fieldName d)) (createElement ''input''))))
      | Scaled \<Rightarrow>
          set_checked (truthy value)
            (setAttribute ''type'' (AStr ''radio'')
            (set_disabled (readOnly d)
            (setAttribute ''annotation-name''
               (AEncoded (fieldName d @ ''_'' @ string_or_empty (buttonValue d)))
            (setAttribute ''name'' (AEncoded (fieldName d)) (createElement ''input'')))))
      | Stored \<Rightarrow>
          set_checked (truthy value)
            (setAttribute ''name'' (AStr (fieldName d))
            (setAttribute ''type'' (AStr ''radio'')
            (set_disabled (readOnly d)
            (setAttribute ''annotation-name''
               (AEncoded (fieldName d @ ''_'' @ string_or_empty (buttonValue d)))
            (setAttribute ''name'' (AEncoded (fieldName d))
            (set_disabled (readOnly d) (createElement ''input''))))))))"

definition copy_style :: "string \<Rightarrow> string \<Rightarrow> elem \<Rightarrow> elem" where
  "copy_style to_prop from_prop e =
     (case getStyle from_prop e of Some x \<Rightarrow> setStyle to_prop x e | None \<Rightarrow> e)"

definition set_title :: "version \<Rightarrow> annotation_data \<Rightarrow> elem \<Rightarrow> elem" where
  "set_title v d c =
     (if v \<noteq> Display \<and> \<not> readOnly d then setAttribute ''title'' (AStr (alternativeText d)) c
      else c)"

text \<open>
  \<open>CheckboxWidgetAnnotationElement.render\<close> and
  \<open>RadioButtonWidgetAnnotationElement.render\<close>: the container receives the \<open>input\<close> and a
  \<open>span\<close>. Only the \<open>Stored\<close> copy consults the annotation storage. The styling of the
  \<open>span\<close> is not modelled.
\<close>

definition render_checkbox :: "version \<Rightarrow> storage \<Rightarrow> element \<Rightarrow> elem \<Rightarrow> elem \<times> storage" where
  "render_checkbox v st el c =
     (let d = data el;
          (value, st') = (if v = Stored then getOrCreateValue st (data_id d) (checkbox_default d)
                          else (checkbox_default d, st));
          c1 = set_title v d c;
          c2 = (if v = Display then copy_style ''fontSize'' ''height'' c1 else c1)
      in (appendChild (createElement ''span'') (appendChild (checkbox_input v d value) c2), st'))"

definition render_radio :: "version \<Rightarrow> storage \<Rightarrow> element \<Rightarrow> elem \<Rightarrow> elem \<times> storage" where
  "render_radio v st el c =
     (let d = data el;
          (value, st') = (if v = Stored then getOrCreateValue st (data_id d) (radio_default d)
                          else (radio_default d, st));
          c1 = set_title v d c;
          c2 = (if v = Display then copy_style ''fontSize'' ''height'' c1
                else if radioButtonType d = AnnotationCheckboxType.CIRCLE
                then copy_style ''width'' ''height'' c1
                else c1);
          input = (if v \<noteq> Display \<and> radioButtonType d = AnnotationCheckboxType.CIRCLE
                   then (case getStyle ''height'' c1 of
                           Some x \<Rightarrow> setStyle ''width'' x (radio_input v d value)
                         | None \<Rightarrow> radio_input v d value)
                   else radio_input v d value)
      in (appendChild (createElement ''span'') (appendChild input c2), st'))"

text \<open>
  \<open>PopupAnnotationElement.render\<close>. Nothing is added for a parent type in
  \<open>IGNORE_TYPES\<close> or when the layer holds no element with the parent's id. Otherwise the
  container is moved next to the parent, \<open>PopupElement.render\<close> hides it and its wrapper is
  appended. A style assignment whose number is \<open>NaN\<close> (a parent without that style) or
  whose string is not a length leaves the style as it was. The nodes inside the wrapper
  come from the parameter \<open>inner\<close>.
\<close>

definition IGNORE_TYPES :: "version \<Rightarrow> string list" where
  "IGNORE_TYPES v =
     (if v = Display then [''Line'']
      else [''Line'', ''Square'', ''Circle'', ''PolyLine'', ''Polygon'', ''Ink''])"

definition popup_position :: "version \<Rightarrow> elem \<Rightarrow> elem \<Rightarrow> elem" where
  "popup_position v parentElement c =
     (case (parseFloat (getStyle ''left'' parentElement),
            parseFloat (getStyle ''width'' parentElement),
            parseFloat (getStyle ''top'' parentElement)) of
        (Some parentLeft, Some parentWidth, parentTop) \<Rightarrow>
          let popupLeft = parentLeft + parentWidth;
              c1 = (case parentTop of
                      Some t \<Rightarrow>
                        if v = Stored \<or> t \<ge> 0
                        then setStyle ''transformOrigin'' (Origin (- popupLeft) (- t)) c
                        else c
                    | None \<Rightarrow> c)
          in setStyle ''left'' (Px popupLeft) c1
      | _ \<Rightarrow> c)"

definition render_popup :: "version \<Rightarrow> (element \<Rightarrow> elem list) \<Rightarrow> elem \<Rightarrow> element \<Rightarrow> elem \<Rightarrow> elem" where
  "render_popup v inner layer el c =
     (if parentType (data el) \<in> set (IGNORE_TYPES v) then c
      else
        case querySelector layer (parentId (data el)) of
          None \<Rightarrow> c
        | Some parentElement \<Rightarrow>
            let c1 = popup_position v parentElement c;
                c2 = setAttribute ''hidden'' ATrue c1;
                wrapper = Elem ''div'' [] [] (inner el)
            in appendChild wrapper c2)"

text \<open>
  \<open>element.render()\<close> for a renderable element: the container of the element, filled.
  For the classes not spelled out above, the nodes that \<open>render\<close> builds inside the
  container are the parameter \<open>inner\<close>; none of these methods touches the container's
  attributes, and all return the container.
\<close>

definition render_element ::
  "version \<Rightarrow> (element \<Rightarrow> elem list) \<Rightarrow> elem \<Rightarrow> storage \<Rightarrow> element \<Rightarrow> elem \<Rightarrow> elem \<times> storage" where
  "render_element v inner layer st el c =
     (case cls el of
        CheckboxWidgetAnnotationElement \<Rightarrow> render_checkbox v st el c
      | RadioButtonWidgetAnnotationElement \<Rightarrow> render_radio v st el c
      | PopupAnnotationElement \<Rightarrow> (render_popup v inner layer el c, st)
      | _ \<Rightarrow> (foldl (\<lambda>c' child. appendChild child c') c (inner el), st))"

text \<open>
  \<open>AnnotationLayer.render\<close>. What the call mutates is the \<open>world\<close>: the store of arrays,
  the layer div and the annotation storage passed in (\<open>None\<close> when the caller passes none:
  then every element gets a new, empty storage that is dropped afterwards). A renderable
  element always has its container, so the branch without one is never taken.
\<close>

record layer_parameters =
  annotations :: "annotation_data option list"
  layer_page_view :: rect4
  layer_viewport_transform :: matrix6
  layer_renderInteractiveForms :: "bool option"

record world =
  arrays :: "rect4 list"
  layer_div :: elem
  annotationStorage :: "storage option"

definition element_parameters :: "version \<Rightarrow> layer_parameters \<Rightarrow> annotation_data \<Rightarrow> parameters" where
  "element_parameters v lp d =
     \<lparr>data = d, page_view = layer_page_view lp,
      viewport_transform = layer_viewport_transform lp,
      renderInteractiveForms =
        (case layer_renderInteractiveForms lp of
           Some b \<Rightarrow> b
         | None \<Rightarrow> (v = Stored))\<rparr>"

definition render_one ::
  "version \<Rightarrow> normalizeRect_fn \<Rightarrow> (element \<Rightarrow> elem list) \<Rightarrow> layer_parameters \<Rightarrow> world
     \<Rightarrow> annotation_data \<Rightarrow> world" where
  "render_one v normalizeRect inner lp w d =
     (case create v normalizeRect (arrays w) (element_parameters v lp d) of
        (el, heap') \<Rightarrow>
          if isRenderable el
          then
            (case container el of
               Some c \<Rightarrow>
                 (case render_element v inner (layer_div w)
                         (case annotationStorage w of Some st \<Rightarrow> st | None \<Rightarrow> Map.empty) el c of
                    (node, st') \<Rightarrow>
                      \<lparr>arrays = heap', layer_div = appendChild node (layer_div w),
                       annotationStorage =
                         (case annotationStorage w of Some st \<Rightarrow> Some st' | None \<Rightarrow> None)\<rparr>)
             | None \<Rightarrow> w\<lparr>arrays := heap'\<rparr>)
          else w\<lparr>arrays := heap'\<rparr>)"

text \<open>The loop of \<open>Display\<close> and \<open>Scaled\<close>, with its \<open>if (!data) continue\<close>.\<close>

fun render_indexed ::
  "version \<Rightarrow> normalizeRect_fn \<Rightarrow> (element \<Rightarrow> elem list) \<Rightarrow> layer_parameters \<Rightarrow> world
     \<Rightarrow> annotation_data option list \<Rightarrow> world" where
  "render_indexed v normalizeRect inner lp w [] = w"
| "render_indexed v normalizeRect inner lp w (None # rest) =
     render_indexed v normalizeRect inner lp w rest"
| "render_indexed v normalizeRect inner lp w (Some d # rest) =
     render_indexed v normalizeRect inner lp (render_one v normalizeRect inner lp w d) rest"

text \<open>
  The two loops of \<open>Stored\<close>: the first fills \<open>sortedAnnotations\<close> and
  \<open>popupAnnotations\<close> and pushes the popups behind the others, the second renders
  \<open>sortedAnnotations\<close>.
\<close>

fun sort_annotations ::
  "annotation_data option list \<Rightarrow> annotation_data list \<Rightarrow> annotation_data list
     \<Rightarrow> annotation_data list" where
  "sort_annotations [] sortedAnnotations popupAnnotations =
     (if popupAnnotations \<noteq> [] then sortedAnnotations @ popupAnnotations
      else sortedAnnotations)"
| "sort_annotations (None # rest) sortedAnnotations popupAnnotations =
     sort_annotations rest sortedAnnotations popupAnnotations"
| "sort_annotations (Some d # rest) sortedAnnotations popupAnnotations =
     (if annotationType d = POPUP
      then sort_annotations rest sortedAnnotations (popupAnnotations @ [d])
      else sort_annotations rest (sortedAnnotations @ [d]) popupAnnotations)"

fun render_each ::
  "version \<Rightarrow> normalizeRect_fn \<Rightarrow> (element \<Rightarrow> elem list) \<Rightarrow> layer_parameters \<Rightarrow> world
     \<Rightarrow> annotation_data list \<Rightarrow> world" where
  "render_each v normalizeRect inner lp w [] = w"
| "render_each v normalizeRect inner lp w (d # rest) =
     render_each v normalizeRect inner lp (render_one v normalizeRect inner lp w d) rest"

definition render ::
  "version \<Rightarrow> normalizeRect_fn \<Rightarrow> (element \<Rightarrow> elem list) \<Rightarrow> layer_parameters \<Rightarrow> world \<Rightarrow> world" where
  "render v normalizeRect inner lp w =
     (if v = Stored
      then render_each v normalizeRect inner lp w (sort_annotations (annotations lp) [] [])
      else render_indexed v normalizeRect inner lp w (annotations lp))"

section \<open>Updating the layer\<close>

text \<open>
  What \<open>AnnotationLayer.update\<close> does to the element it found. \<open>Display\<close> and \<open>Stored\<close>
  set the transform. \<open>Scaled\<close> rescales the position and size of the element from the
  old scale (its \<open>scale\<close> attribute) to the new one, then the font size, width and height
  of every descendant that has them; a descendant with a line height gets the element's
  new height as line height. An assignment whose number is not finite (a style or the
  attribute missing, or the old scale zero) or that is a negative size leaves the style
  as it was.
\<close>

definition rescale_style :: "string \<Rightarrow> real option \<Rightarrow> real \<Rightarrow> elem \<Rightarrow> elem" where
  "rescale_style k scale factor e =
     (case (parseFloat (getStyle k e), scale) of
        (Some x, Some s) \<Rightarrow> if s = 0 then e else setLength k (x / s * factor) e
      | _ \<Rightarrow> e)"

definition rescale_if_set :: "string \<Rightarrow> real option \<Rightarrow> real \<Rightarrow> elem \<Rightarrow> elem" where
  "rescale_if_set k scale factor e =
     (if getStyle k e \<noteq> None then rescale_style k scale factor e else e)"

fun rescale_descendant :: "real option \<Rightarrow> real \<Rightarrow> cssval option \<Rightarrow> elem \<Rightarrow> elem" where
  "rescale_descendant scale scaleX h (Elem t a s ks) =
     (let e1 = rescale_if_set ''fontSize'' scale scaleX (Elem t a s ks);
          e2 = rescale_if_set ''width'' scale scaleX e1;
          e3 = rescale_if_set ''height'' scale scaleX e2;
          e4 = (case (getStyle ''lineHeight'' e3, h) of
                  (Some l, Some x) \<Rightarrow> setStyle ''lineHeight'' x e3
                | (Some l, None) \<Rightarrow> removeStyle ''lineHeight'' e3
                | _ \<Rightarrow> e3)
      in Elem (tagName e4) (attrs e4) (css e4) (map (rescale_descendant scale scaleX h) ks))"

definition attr_number :: "attrval option \<Rightarrow> real option" where
  "attr_number a = (case a of Some (ANum x) \<Rightarrow> Some x | _ \<Rightarrow> None)"

definition update_element :: "version \<Rightarrow> matrix6 \<Rightarrow> elem \<Rightarrow> elem" where
  "update_element v transform e =
     (if v = Scaled
      then
        let scale = attr_number (getAttribute ''scale'' e);
            scaleX = m0 transform;
            scaleY = m3 transform;
            e1 = rescale_style ''left'' scale scaleX e;
            e2 = rescale_style ''top'' scale scaleY e1;
            e3 = rescale_style ''width'' scale scaleX e2;
            e4 = rescale_style ''height'' scale scaleY e3;
            e5 = setAttribute ''scale'' (ANum scaleX) e4
        in Elem (tagName e5) (attrs e5) (css e5)
             (map (rescale_descendant scale scaleX (getStyle ''height'' e5)) (childNodes e5))
      else setStyle ''transform'' (MatrixOf transform) e)"

text \<open>
  \<open>querySelector\<close> followed by a write to the element found: the first child that
  satisfies the selector is replaced by its updated self.
\<close>

fun update_first :: "(elem \<Rightarrow> bool) \<Rightarrow> (elem \<Rightarrow> elem) \<Rightarrow> elem list \<Rightarrow> elem list" where
  "update_first P f [] = []"
| "update_first P f (e # es) = (if P e then f e # es else e # update_first P f es)"

definition update_found :: "version \<Rightarrow> matrix6 \<Rightarrow> string \<Rightarrow> elem \<Rightarrow> elem" where
  "update_found v transform ident layer =
     Elem (tagName layer) (attrs layer) (css layer)
       (update_first (has_annotation_id ident) (update_element v transform) (childNodes layer))"

text \<open>
  The loop of \<open>update\<close> reads \<open>data.id\<close> without the test for \<open>null\<close> that \<open>render\<close>
  makes: a \<open>null\<close> entry is a \<open>TypeError\<close>, and the statement after the loop is not
  reached.
\<close>

fun update_loop ::
  "version \<Rightarrow> matrix6 \<Rightarrow> elem \<Rightarrow> annotation_data option list \<Rightarrow> (error + unit) \<times> elem" where
  "update_loop v transform layer [] = (Inr (), layer)"
| "update_loop v transform layer (None # rest) =
     (Inl (TypeError ''Cannot read property id of null''), layer)"
| "update_loop v transform layer (Some d # rest) =
     update_loop v transform (update_found v transform (data_id d) layer) rest"

definition update :: "version \<Rightarrow> layer_parameters \<Rightarrow> elem \<Rightarrow> (error + unit) \<times> elem" where
  "update v lp layer =
     (case update_loop v (layer_viewport_transform lp) layer (annotations lp) of
        (Inl e, layer') \<Rightarrow> (Inl e, layer')
      | (Inr u, layer') \<Rightarrow> (Inr (), removeAttribute ''hidden'' layer'))"

section \<open>The popup element\<close>

text \<open>
  A \<open>PopupElement\<close> holds the flag \<open>pinned\<close> and references to two nodes: the container
  it was given and the wrapper that \<open>render\<close> creates. \<open>hideElement\<close> is one of the two,
  chosen by \<open>hideWrapper\<close>; the writes to \<open>hideElement\<close> and to \<open>container\<close> below land on
  the same node when it is the container.
\<close>

record PopupElement =
  popup_container :: elem
  wrapper :: elem
  hideWrapper :: bool
  pinned :: bool

definition new_PopupElement :: "elem \<Rightarrow> bool \<Rightarrow> PopupElement" where
  "new_PopupElement c hw =
     \<lparr>popup_container = c, wrapper = createElement ''div'', hideWrapper = hw, pinned = False\<rparr>"

definition hideElement :: "PopupElement \<Rightarrow> elem" where
  "hideElement s = (if hideWrapper s then wrapper s else popup_container s)"

definition on_hideElement :: "(elem \<Rightarrow> elem) \<Rightarrow> PopupElement \<Rightarrow> PopupElement" where
  "on_hideElement f s =
     (if hideWrapper s then s\<lparr>wrapper := f (wrapper s)\<rparr>
      else s\<lparr>popup_container := f (popup_container s)\<rparr>)"

definition popup_render :: "PopupElement \<Rightarrow> PopupElement" where
  "popup_render s =
     on_hideElement (setAttribute ''hidden'' ATrue) (s\<lparr>wrapper := createElement ''div''\<rparr>)"

definition show_popup :: "bool \<Rightarrow> PopupElement \<Rightarrow> PopupElement" where
  "show_popup pin s =
     (let s1 = (if pin then s\<lparr>pinned := True\<rparr> else s) in
      if hasAttribute ''hidden'' (hideElement s1)
      then
        let s2 = on_hideElement (removeAttribute ''hidden'') s1 in
        s2\<lparr>popup_container :=
             setStyle ''zIndex'' (Append1 (getStyle ''zIndex'' (popup_container s2)))
               (popup_container s2)\<rparr>
      else s1)"

definition hide_popup :: "bool \<Rightarrow> PopupElement \<Rightarrow> PopupElement" where
  "hide_popup unpin s =
     (let s1 = (if unpin then s\<lparr>pinned := False\<rparr> else s) in
      if \<not> hasAttribute ''hidden'' (hideElement s1) \<and> \<not> pinned s1
      then
        let s2 = on_hideElement (setAttribute ''hidden'' ATrue) s1 in
        s2\<lparr>popup_container :=
             setStyle ''zIndex'' (Minus1 (getStyle ''zIndex'' (popup_container s2)))
               (popup_container s2)\<rparr>
      else s1)"

definition toggle_popup :: "PopupElement \<Rightarrow> PopupElement" where
  "toggle_popup s = (if pinned s then hide_popup True s else show_popup True s)"

text \<open>
  The handlers that \<open>render\<close> attaches: \<open>click\<close> on the trigger is \<open>_toggle\<close>,
  \<open>mouseover\<close> is \<open>_show(false)\<close>, \<open>mouseout\<close> is \<open>_hide(false)\<close>, \<open>click\<close> on the popup
  is \<open>_hide(true)\<close>. Any sequence of calls is a list of operations.
\<close>

datatype popup_op = Toggle | Show bool | Hide bool

fun apply_popup_op :: "popup_op \<Rightarrow> PopupElement \<Rightarrow> PopupElement" where
  "apply_popup_op Toggle s = toggle_popup s"
| "apply_popup_op (Show pin) s = show_popup pin s"
| "apply_popup_op (Hide unpin) s = hide_popup unpin s"

fun run_popup_ops :: "popup_op list \<Rightarrow> PopupElement \<Rightarrow> PopupElement" where
  "run_popup_ops [] s = s"
| "run_popup_ops (x # xs) s = run_popup_ops xs (apply_popup_op x s)"

definition popup_invariant :: "PopupElement \<Rightarrow> bool" where
  "popup_invariant s = (pinned s \<longrightarrow> \<not> hasAttribute ''hidden'' (hideElement s))"

section \<open>Values used in the examples\<close>

text \<open>
  Two ways \<open>Util.normalizeRect\<close> may be written: on a copy of its argument, or in place.
  Both order the corners so that the first is the smaller.
\<close>

definition ordered_corners :: "rect4 \<Rightarrow> rect4" where
  "ordered_corners a =
     Rect4 (if r0 a > r2 a then r2 a else r0 a) (if r1 a > r3 a then r3 a else r1 a)
           (if r0 a > r2 a then r0 a else r2 a) (if r1 a > r3 a then r1 a else r3 a)"

definition normalizeRect_copy :: normalizeRect_fn where
  "normalizeRect_copy h r = (length h, h @ [ordered_corners (h ! r)])"

definition normalizeRect_in_place :: normalizeRect_fn where
  "normalizeRect_in_place h r = (r, h[r := ordered_corners (h ! r)])"

definition example_data :: annotation_data where
  "example_data =
     \<lparr>data_id = ''12R'', annotationType = TEXT, fieldType = JUndefined,
      radioButton = False, checkBox = False, rect = 0,
      borderStyle = \<lparr>width = 1, style = SOLID, horizontalCornerRadius = 0,
                      verticalCornerRadius = 0\<rparr>,
      borderColor = Some (0, 0, 255), color = None, hasPopup = False,
      title = ''Note'', contents = ''Hello'', url = JUndefined, dest = JUndefined,
      action = JUndefined, hasAppearance = True, fieldValue = JNull, buttonValue = JNull,
      fieldName = [], readOnly = False, alternativeText = [],
      radioButtonType = CHECK, parentId = [], parentType = []\<rparr>"

definition example_heap :: "rect4 list" where
  "example_heap = [Rect4 5 5 15 25]"

definition example_parameters :: "annotation_data \<Rightarrow> real \<Rightarrow> parameters" where
  "example_parameters d s =
     \<lparr>data = d, page_view = Rect4 0 0 100 100, viewport_transform = Matrix6 s 0 0 s 0 0,
      renderInteractiveForms = True\<rparr>"

definition example_layer_parameters :: "annotation_data option list \<Rightarrow> layer_parameters" where
  "example_layer_parameters xs =
     \<lparr>annotations = xs, layer_page_view = Rect4 0 0 100 100,
      layer_viewport_transform = Matrix6 2 0 0 2 0 0,
      layer_renderInteractiveForms = Some True\<rparr>"

definition example_world :: world where
  "example_world =
     \<lparr>arrays = example_heap, layer_div = createElement ''div'', annotationStorage = None\<rparr>"

definition example_popup :: annotation_data where
  "example_popup =
     example_data\<lparr>data_id := ''13R'', annotationType := POPUP, parentId := ''12R'',
                    parentType := ''Text''\<rparr>"

definition example_checkbox :: annotation_data where
  "example_checkbox =
     example_data\<lparr>annotationType := WIDGET, fieldType := JStr ''Btn'', checkBox := True,
                    fieldValue := JStr ''Yes'', fieldName := ''agree''\<rparr>"

definition example_radio :: annotation_data where
  "example_radio =
     example_data\<lparr>annotationType := WIDGET, fieldType := JStr ''Btn'', radioButton := True,
                    fieldValue := JStr ''A'', buttonValue := JStr ''A'', fieldName := ''choice''\<rparr>"

definition example_inner :: "element \<Rightarrow> elem list" where
  "example_inner el = []"



text \<open>
  A file attachment whose data has no \<open>file\<close>, and helper functions that accept every
  file name.
\<close>

definition example_attachment :: annotation_data where
  "example_attachment = example_data\<lparr>data_id := ''14R'', annotationType := FILEATTACHMENT\<rparr>"

definition example_no_file :: received where
  "example_no_file = \<lparr>has_rect = True, has_borderStyle = True, data_file = None\<rparr>"

definition example_nothing :: received where
  "example_nothing = \<lparr>has_rect = False, has_borderStyle = False, data_file = None\<rparr>"

definition example_announce :: "jsval \<Rightarrow> error option" where
  "example_announce filename = None"



section \<open>What is assumed of \<open>Util.normalizeRect\<close>\<close>

text \<open>
  \<open>writes_only_argument\<close>: a call changes no array of the store other than the one it is
  given, though it may add arrays. \<open>result_from_contents\<close>: the array it returns depends
  only on the contents of the array it is given.
\<close>

definition writes_only_argument :: "normalizeRect_fn \<Rightarrow> bool" where
  "writes_only_argument nr =
     (\<forall>h r. r < length h \<longrightarrow>
        (case nr h r of
           (r', h') \<Rightarrow> length h \<le> length h' \<and> (\<forall>q < length h. q \<noteq> r \<longrightarrow> h' ! q = h ! q)))"

definition result_from_contents :: "normalizeRect_fn \<Rightarrow> bool" where
  "result_from_contents nr =
     (\<forall>h1 i1 h2 i2. i1 < length h1 \<and> i2 < length h2 \<and> h1 ! i1 = h2 ! i2 \<longrightarrow>
        snd (nr h1 i1) ! fst (nr h1 i1) = snd (nr h2 i2) ! fst (nr h2 i2))"


section \<open>Notions used in the statements\<close>

text \<open>
  The entries of an annotation array that are not \<open>null\<close>, in order; the annotation
  types that have a \<open>case\<close> label in the factory's switch of each copy; the field types
  that have one in the inner switch.
\<close>

fun present :: "'a option list \<Rightarrow> 'a list" where
  "present [] = []"
| "present (None # xs) = present xs"
| "present (Some x # xs) = x # present xs"

definition recognized_type :: "version \<Rightarrow> AnnotationType \<Rightarrow> bool" where
  "recognized_type v t =
     (if v = Display
      then t \<in> {LINK, TEXT, WIDGET, POPUP, LINE, HIGHLIGHT, AnnotationType.UNDERLINE,
                 SQUIGGLY, STRIKEOUT, FILEATTACHMENT}
      else t \<in> {LINK, TEXT, WIDGET, POPUP, FREETEXT, LINE, AnnotationType.SQUARE,
                 AnnotationType.CIRCLE, POLYLINE, CARET, INK, POLYGON, HIGHLIGHT,
                 AnnotationType.UNDERLINE, SQUIGGLY, STRIKEOUT, STAMP, FILEATTACHMENT})"

definition recognized_fieldType :: "jsval \<Rightarrow> bool" where
  "recognized_fieldType t = (t \<in> {JStr ''Tx'', JStr ''Btn'', JStr ''Ch''})"

text \<open>
  \<open>renderable\<close> is the value of \<open>isRenderable\<close> that the constructor chosen by the
  factory computes for an entry of the array; \<open>annotation_ids\<close> reads the
  \<open>data-annotation-id\<close> attributes of a list of elements.
\<close>

definition renderable :: "version \<Rightarrow> layer_parameters \<Rightarrow> annotation_data \<Rightarrow> bool" where
  "renderable v lp d =
     fst (constructor_args v (element_parameters v lp d) (factory_class v d))"

definition annotation_ids :: "elem list \<Rightarrow> attrval option list" where
  "annotation_ids es = map (getAttribute ''data-annotation-id'') es"



text \<open>
  The loop of \<open>update\<close> as it acts on the children of the layer, for a list of
  annotations without \<open>null\<close>.
\<close>

fun update_children :: "version \<Rightarrow> matrix6 \<Rightarrow> elem list \<Rightarrow> annotation_data list \<Rightarrow> elem list" where
  "update_children v tr es [] = es"
| "update_children v tr es (d # ds) =
     update_children v tr
       (update_first (has_annotation_id (data_id d)) (update_element v tr) es) ds"

text \<open>
  The data carries what the constructor of its class reads: \<open>data.rect\<close> when the
  element is renderable, \<open>data.borderStyle\<close> when moreover its border is not ignored,
  and for a file attachment \<open>data.file\<close>, with a file name that the functions called
  with it accept.
\<close>

definition carries_what_is_read ::
  "version \<Rightarrow> (jsval \<Rightarrow> error option) \<Rightarrow> parameters \<Rightarrow> received \<Rightarrow> bool" where
  "carries_what_is_read v announce p r =
     (case constructor_args v p (factory_class v (data p)) of
        (is_renderable, ignoreBorder) \<Rightarrow>
          (\<not> is_renderable \<or> (has_rect r \<and> (ignoreBorder \<or> has_borderStyle r)))
          \<and> (factory_class v (data p) \<noteq> FileAttachmentAnnotationElement
               \<or> (case data_file r of
                     None \<Rightarrow> False
                   | Some filename \<Rightarrow> announce filename = None)))"

section \<open>The print service\<close>

text \<open>
  The module keeps one variable \<open>activeService\<close>, either \<open>null\<close> or a reference to a
  \<open>PDFPrintService\<close> object. Objects are compared by identity (\<open>this === activeService\<close>),
  so the objects live in a list and a reference is an index into it; \<open>new\<close> appends.
\<close>

record page_size =
  width :: real
  height :: real

text \<open>
  A \<open>style\<close> element made by \<open>layout\<close>. Its text is either still empty or the
  \<open>@page\<close> rule with the width and height (in points) of the first page.
\<close>

datatype style_element = StyleElement (textContent: "(real \<times> real) option")

record PDFPrintService =
  pagesOverview :: "page_size list"
  currentPage :: int
  pageStyleSheet :: "style_element option"
  printContainer :: "nat list"

record module_state =
  activeService :: "nat option"
  services :: "PDFPrintService list"
  body_printing :: bool
  body_sheets :: "style_element list"
  print_calls :: nat

definition new_PDFPrintService :: "page_size list \<Rightarrow> nat list \<Rightarrow> PDFPrintService" where
  "new_PDFPrintService pages cont =
     \<lparr>pagesOverview = pages, currentPage = - 1, pageStyleSheet = None,
      printContainer = cont\<rparr>"

definition createPrintService ::
  "module_state \<Rightarrow> page_size list \<Rightarrow> nat list \<Rightarrow> (error + nat) \<times> module_state" where
  "createPrintService s pages cont =
     (if activeService s \<noteq> None
      then (Inl (Error ''The print service is created and active.''), s)
      else
        let this = length (services s) in
        (Inr this,
         s\<lparr>services := services s @ [new_PDFPrintService pages cont],
           activeService := Some this\<rparr>))"

definition active :: "module_state \<Rightarrow> nat \<Rightarrow> bool" where
  "active s this = (Some this = activeService s)"






text \<open>
  \<open>destroy\<close> is the only other writer of \<open>activeService\<close>; it resets it to \<open>null\<close>, and
  only when called on the active service. \<open>remove()\<close> takes the style element out of the
  body when it is there and does nothing to a detached one.
\<close>

definition destroy :: "module_state \<Rightarrow> nat \<Rightarrow> module_state" where
  "destroy s this =
     (if activeService s \<noteq> Some this then s
      else
        let svc = services s ! this;
            s1 = s\<lparr>services := (services s)[this := svc\<lparr>printContainer := []\<rparr>],
                   body_printing := False\<rparr>;
            s2 = (case pageStyleSheet svc of
                    None \<Rightarrow> s1
                  | Some sheet \<Rightarrow>
                      s1\<lparr>services := (services s1)
                            [this := (services s1 ! this)\<lparr>pageStyleSheet := None\<rparr>],
                         body_sheets := remove1 sheet (body_sheets s1)\<rparr>)
        in s2\<lparr>activeService := None\<rparr>)"

section \<open>Facts about the DOM operations\<close>

lemma getStyle_setStyle [simp]:
  "getStyle k (setStyle k' v e) = (if k = k' then Some v else getStyle k e)"
  by (cases e) (simp add: getStyle_def update_conv')

lemma getStyle_setAttribute [simp]: "getStyle k (setAttribute k' v e) = getStyle k e"
  by (cases e) (simp add: getStyle_def)

lemma getStyle_removeAttribute [simp]: "getStyle k (removeAttribute k' e) = getStyle k e"
  by (cases e) (simp add: getStyle_def)

lemma getAttribute_setAttribute [simp]:
  "getAttribute k (setAttribute k' v e) = (if k = k' then Some v else getAttribute k e)"
  by (cases e) (simp add: getAttribute_def update_conv')

lemma getAttribute_removeAttribute [simp]:
  "getAttribute k (removeAttribute k' e) = (if k = k' then None else getAttribute k e)"
  by (cases e) (simp add: getAttribute_def delete_conv')

lemma getAttribute_setStyle [simp]: "getAttribute k (setStyle k' v e) = getAttribute k e"
  by (cases e) (simp add: getAttribute_def)

lemma getAttribute_appendChild [simp]: "getAttribute k (appendChild x e) = getAttribute k e"
  by (cases e) (simp add: getAttribute_def)

lemma getStyle_appendChild [simp]: "getStyle k (appendChild x e) = getStyle k e"
  by (cases e) (simp add: getStyle_def)

lemma childNodes_setStyle [simp]: "childNodes (setStyle k v e) = childNodes e"
  by (cases e) simp

lemma childNodes_setAttribute [simp]: "childNodes (setAttribute k v e) = childNodes e"
  by (cases e) simp

lemma childNodes_removeAttribute [simp]: "childNodes (removeAttribute k e) = childNodes e"
  by (cases e) simp

lemma childNodes_appendChild [simp]: "childNodes (appendChild x e) = childNodes e @ [x]"
  by (cases e) simp

lemma tagName_simps [simp]:
  "tagName (setStyle k v e) = tagName e" "tagName (setAttribute k a e) = tagName e"
  "tagName (removeAttribute k e) = tagName e" "tagName (appendChild x e) = tagName e"
  "tagName (createElement t) = t"
  by (cases e; simp add: createElement_def)+

lemma createElement_simps [simp]:
  "getStyle k (createElement t) = None" "getAttribute k (createElement t) = None"
  "childNodes (createElement t) = []"
  by (simp_all add: createElement_def getStyle_def getAttribute_def)

lemma hasAttribute_getAttribute: "hasAttribute k e = (getAttribute k e \<noteq> None)"
  by (simp add: hasAttribute_def getAttribute_def)


lemma getStyle_setLength_other [simp]:
  "k \<noteq> k' \<Longrightarrow> getStyle k (setLength k' x e) = getStyle k e"
  by (simp add: setLength_def)

lemma getAttribute_setLength [simp]: "getAttribute k (setLength k' x e) = getAttribute k e"
  by (simp add: setLength_def)

lemma hasAttribute_setLength [simp]: "hasAttribute k (setLength k' x e) = hasAttribute k e"
  by (simp add: hasAttribute_getAttribute)

lemma childNodes_setLength [simp]: "childNodes (setLength k x e) = childNodes e"
  by (simp add: setLength_def)

lemma tagName_setLength [simp]: "tagName (setLength k x e) = tagName e"
  by (simp add: setLength_def)

lemma nonnegative_length_simps [simp]:
  "nonnegative_length ''width''" "nonnegative_length ''height''"
  "\<not> nonnegative_length ''left''" "\<not> nonnegative_length ''top''"
  by (simp_all add: nonnegative_length_def)



lemma getAttribute_border_line_style [simp]:
  "getAttribute k (border_line_style v st c) = getAttribute k c"
  by (cases st) (simp_all add: border_line_style_def)

lemma getAttribute_border_styles [simp]:
  "getAttribute k (border_styles v d c) = getAttribute k c"
  by (simp add: border_styles_def Let_def split: option.split)

lemma hasAttribute_setStyle [simp]: "hasAttribute k (setStyle a b e) = hasAttribute k e"
  by (simp add: hasAttribute_getAttribute)

lemma hasAttribute_setAttribute [simp]:
  "hasAttribute k (setAttribute k' x e) = (k = k' \<or> hasAttribute k e)"
  by (simp add: hasAttribute_getAttribute)

lemma hasAttribute_removeAttribute [simp]:
  "hasAttribute k (removeAttribute k' e) = (k \<noteq> k' \<and> hasAttribute k e)"
  by (simp add: hasAttribute_getAttribute)

section \<open>The store across \<open>_createContainer\<close>\<close>

lemma writes_only_argumentD:
  assumes "writes_only_argument nr" and "r < length h" and "nr h r = (r', h')"
  shows "length h \<le> length h'" and "q < length h \<Longrightarrow> q \<noteq> r \<Longrightarrow> h' ! q = h ! q"
proof -
  from assms(1) have "r < length h \<longrightarrow>
        (case nr h r of
           (r', h') \<Rightarrow> length h \<le> length h' \<and> (\<forall>q < length h. q \<noteq> r \<longrightarrow> h' ! q = h ! q))"
    unfolding writes_only_argument_def by (elim allE)
  with assms(2,3) have *: "length h \<le> length h' \<and> (\<forall>q < length h. q \<noteq> r \<longrightarrow> h' ! q = h ! q)"
    by simp
  from * show "length h \<le> length h'" by simp
  from * show "q < length h \<Longrightarrow> q \<noteq> r \<Longrightarrow> h' ! q = h ! q" by simp
qed

lemma result_from_contentsD:
  assumes "result_from_contents nr" and "i1 < length h1" and "i2 < length h2"
    and "h1 ! i1 = h2 ! i2"
  shows "snd (nr h1 i1) ! fst (nr h1 i1) = snd (nr h2 i2) ! fst (nr h2 i2)"
proof -
  from assms(1) have "i1 < length h1 \<and> i2 < length h2 \<and> h1 ! i1 = h2 ! i2 \<longrightarrow>
        snd (nr h1 i1) ! fst (nr h1 i1) = snd (nr h2 i2) ! fst (nr h2 i2)"
    unfolding result_from_contents_def by (elim allE)
  with assms(2-4) show ?thesis by simp
qed

lemma createContainer_heap:
  "snd (createContainer v nr h p ign) =
     snd (nr (h @ [Rect4 (r0 (h ! rect (data p)))
                        (r3 (page_view p) - r1 (h ! rect (data p)) + r1 (page_view p))
                        (r2 (h ! rect (data p)))
                        (r3 (page_view p) - r3 (h ! rect (data p)) + r1 (page_view p))])
             (length h))"
  by (simp add: createContainer_def Let_def split: prod.split)


lemma createContainer_old_arrays:
  assumes "writes_only_argument nr" and "q < length h"
  shows "snd (createContainer v nr h p ign) ! q = h ! q"
proof -
  let ?lit = "Rect4 (r0 (h ! rect (data p)))
                        (r3 (page_view p) - r1 (h ! rect (data p)) + r1 (page_view p))
                        (r2 (h ! rect (data p)))
                        (r3 (page_view p) - r3 (h ! rect (data p)) + r1 (page_view p))"
  obtain r' h' where nr: "nr (h @ [?lit]) (length h) = (r', h')"
    by (cases "nr (h @ [?lit]) (length h)")
  have lt: "length h < length (h @ [?lit])" by simp
  from assms(2) have "q < length (h @ [?lit])" "q \<noteq> length h" by simp_all
  with writes_only_argumentD(2)[OF assms(1) lt nr] have "h' ! q = (h @ [?lit]) ! q" by blast
  with assms(2) have "h' ! q = h ! q" by (simp add: nth_append)
  then show ?thesis by (simp add: createContainer_heap nr)
qed

lemma createContainer_depends:
  assumes "h2 ! rect (data p) = h1 ! rect (data p)"
    and "snd (nr (h2 @ [x]) (length h2)) ! fst (nr (h2 @ [x]) (length h2))
         = snd (nr (h1 @ [x]) (length h1)) ! fst (nr (h1 @ [x]) (length h1))"
    and "x = Rect4 (r0 (h1 ! rect (data p)))
                        (r3 (page_view p) - r1 (h1 ! rect (data p)) + r1 (page_view p))
                        (r2 (h1 ! rect (data p)))
                        (r3 (page_view p) - r3 (h1 ! rect (data p)) + r1 (page_view p))"
  shows "fst (createContainer v nr h2 p ign) = fst (createContainer v nr h1 p ign)"
proof -
  obtain a1 k1 where n1: "nr (h1 @ [x]) (length h1) = (a1, k1)"
    by (cases "nr (h1 @ [x]) (length h1)")
  obtain a2 k2 where n2: "nr (h2 @ [x]) (length h2) = (a2, k2)"
    by (cases "nr (h2 @ [x]) (length h2)")
  from assms(2) n1 n2 have eq: "k2 ! a2 = k1 ! a1" by simp
  have x2: "Rect4 (r0 (h1 ! rect (data p)))
                        (r3 (page_view p) - r1 (h1 ! rect (data p)) + r1 (page_view p))
                        (r2 (h1 ! rect (data p)))
                        (r3 (page_view p) - r3 (h1 ! rect (data p)) + r1 (page_view p)) = x"
    using assms(3) by simp
  show ?thesis
    unfolding createContainer_def Let_def assms(1) x2 n1 n2 by (simp add: eq)
qed


lemma in_place_writes_only_argument: "writes_only_argument normalizeRect_in_place"
  by (simp add: writes_only_argument_def normalizeRect_in_place_def)

lemma in_place_result_from_contents: "result_from_contents normalizeRect_in_place"
  by (simp add: result_from_contents_def normalizeRect_in_place_def)

lemma copy_writes_only_argument: "writes_only_argument normalizeRect_copy"
  by (simp add: writes_only_argument_def normalizeRect_copy_def nth_append)

lemma copy_result_from_contents: "result_from_contents normalizeRect_copy"
  by (simp add: result_from_contents_def normalizeRect_copy_def)

subsection \<open>The styles of a new container\<close>




section \<open>Facts about the factory\<close>

lemma create_isRenderable:
  "isRenderable (fst (create v nr h p)) = fst (constructor_args v p (factory_class v (data p)))"
  by (simp add: create_def new_element_def split: prod.split)

lemma create_container:
  "container (fst (create v nr h p)) =
     (if isRenderable (fst (create v nr h p))
      then Some (fst (createContainer v nr h p
                        (snd (constructor_args v p (factory_class v (data p))))))
      else None)"
  by (simp add: create_def new_element_def split: prod.split)

lemma create_fields:
  "data (fst (create v nr h p)) = data p"
  "cls (fst (create v nr h p)) = factory_class v (data p)"
  by (simp_all add: create_def new_element_def split: prod.split)

lemma create_not_renderable:
  "\<not> isRenderable (fst (create v nr h p)) \<Longrightarrow> snd (create v nr h p) = h"
  by (simp add: create_def new_element_def split: prod.splits if_splits)

lemma factory_class_default:
  "\<not> recognized_type v (annotationType d) \<Longrightarrow> factory_class v d = AnnotationElement"
  by (cases "annotationType d"; cases v) (simp_all add: factory_class_def recognized_type_def)

lemma factory_class_widget_default:
  "annotationType d = WIDGET \<Longrightarrow> \<not> recognized_fieldType (fieldType d) \<Longrightarrow>
     factory_class v d = WidgetAnnotationElement"
  by (simp add: factory_class_def widget_class_def recognized_fieldType_def)

lemma render_one_not_renderable:
  "\<not> isRenderable (fst (create v nr (arrays w) (element_parameters v lp d))) \<Longrightarrow>
     render_one v nr inner lp w d = w"
proof -
  assume n: "\<not> isRenderable (fst (create v nr (arrays w) (element_parameters v lp d)))"
  obtain el h' where c: "create v nr (arrays w) (element_parameters v lp d) = (el, h')"
    by (cases "create v nr (arrays w) (element_parameters v lp d)")
  from n c have "\<not> isRenderable el" by simp
  moreover from create_not_renderable[OF n] c have "h' = arrays w" by simp
  ultimately show ?thesis by (simp add: render_one_def c)
qed

subsection \<open>The factory on data with fields missing\<close>

lemma super_received_cases:
  "super_received v nr h p r k =
     (if fst (constructor_args v p k)
      then (if \<not> has_rect r
            then (Inl (TypeError ''Cannot read property 2 of undefined''), h)
            else if \<not> snd (constructor_args v p k) \<and> \<not> has_borderStyle r
            then (Inl (TypeError ''Cannot read property width of undefined''),
                  snd (new_element v nr h p k))
            else (Inr (fst (new_element v nr h p k)), snd (new_element v nr h p k)))
      else (Inr (fst (new_element v nr h p k)), h))"
  by (cases "constructor_args v p k";
      cases "createContainer v nr h p (snd (constructor_args v p k))")
     (auto simp add: super_received_def createContainer_received_def new_element_def)

lemma create_received_returns:
  "(\<exists>el. fst (create_received v nr announce h p r) = Inr el)
     = carries_what_is_read v announce p r"
  by (cases "constructor_args v p (factory_class v (data p))")
     (auto simp add: create_received_def new_element_received_def super_received_cases
        carries_what_is_read_def split: option.splits)

lemma create_received_complete:
  "carries_what_is_read v announce p r \<Longrightarrow>
   create_received v nr announce h p r = (Inr (fst (create v nr h p)), snd (create v nr h p))"
  by (cases "constructor_args v p (factory_class v (data p))")
     (auto simp add: create_received_def new_element_received_def super_received_cases
        carries_what_is_read_def create_def new_element_def split: option.splits)

lemma carries_not_renderable:
  "\<not> fst (constructor_args v p (factory_class v (data p))) \<Longrightarrow>
   factory_class v (data p) \<noteq> FileAttachmentAnnotationElement \<Longrightarrow>
   carries_what_is_read v announce p r"
  by (cases "constructor_args v p (factory_class v (data p))")
     (simp add: carries_what_is_read_def)

section \<open>Facts about the popup element\<close>

lemma hideElement_on_hideElement [simp]:
  "hideElement (on_hideElement f s) = f (hideElement s)"
  by (simp add: hideElement_def on_hideElement_def)

lemma pinned_on_hideElement [simp]: "pinned (on_hideElement f s) = pinned s"
  by (simp add: on_hideElement_def)

lemma hasAttribute_hideElement_zIndex [simp]:
  "hasAttribute k (hideElement (s\<lparr>popup_container := setStyle a b (popup_container s)\<rparr>))
     = hasAttribute k (hideElement s)"
  by (simp add: hideElement_def)

lemma show_popup_visible: "\<not> hasAttribute ''hidden'' (hideElement (show_popup pin s))"
  by (simp add: show_popup_def Let_def)

lemma pinned_show_popup: "pinned (show_popup pin s) = (pin \<or> pinned s)"
  by (simp add: show_popup_def Let_def)

lemma pinned_hide_popup: "pinned (hide_popup unpin s) = (\<not> unpin \<and> pinned s)"
  by (simp add: hide_popup_def Let_def)

lemma hide_popup_pinned_unchanged:
  "pinned s \<Longrightarrow> hide_popup False s = s"
  by (simp add: hide_popup_def)

lemma popup_invariant_show: "popup_invariant (show_popup pin s)"
  by (simp add: popup_invariant_def show_popup_visible)

lemma popup_invariant_hide: "popup_invariant s \<Longrightarrow> popup_invariant (hide_popup unpin s)"
  by (cases unpin) (simp_all add: popup_invariant_def hide_popup_def Let_def)

lemma popup_invariant_toggle: "popup_invariant s \<Longrightarrow> popup_invariant (toggle_popup s)"
  by (simp add: toggle_popup_def popup_invariant_show popup_invariant_hide)

lemma popup_invariant_op: "popup_invariant s \<Longrightarrow> popup_invariant (apply_popup_op x s)"
  by (cases x) (simp_all add: popup_invariant_show popup_invariant_hide popup_invariant_toggle)

lemma popup_invariant_run: "popup_invariant s \<Longrightarrow> popup_invariant (run_popup_ops xs s)"
  by (induction xs arbitrary: s) (simp_all add: popup_invariant_op)

lemma popup_invariant_render: "popup_invariant (popup_render (new_PopupElement c hw))"
  by (simp add: popup_invariant_def popup_render_def new_PopupElement_def)

lemma example_popup_run:
  "pinned (run_popup_ops [Show False, Toggle, Hide False]
             (popup_render (new_PopupElement (createElement ''section'') False)))"
  by (simp add: toggle_popup_def pinned_show_popup pinned_hide_popup popup_render_def
      new_PopupElement_def)

section \<open>Facts about rendering\<close>

lemma renderable_create:
  "isRenderable (fst (create v nr h (element_parameters v lp d))) = renderable v lp d"
  by (simp add: create_isRenderable renderable_def element_parameters_def)

lemma createContainer_id:
  "getAttribute ''data-annotation-id'' (fst (createContainer v nr h p ign))
     = Some (AStr (data_id (data p)))"
  by (simp add: createContainer_def Let_def split: prod.split)

lemma getAttribute_copy_style [simp]:
  "getAttribute k (copy_style a b e) = getAttribute k e"
  by (simp add: copy_style_def split: option.split)

lemma getAttribute_set_title:
  "k \<noteq> ''title'' \<Longrightarrow> getAttribute k (set_title v d e) = getAttribute k e"
  by (simp add: set_title_def)

lemma getAttribute_popup_position [simp]:
  "getAttribute k (popup_position v parent e) = getAttribute k e"
  by (simp add: popup_position_def Let_def split: option.split prod.split)

lemma getAttribute_foldl_appendChild [simp]:
  "getAttribute k (foldl (\<lambda>c' child. appendChild child c') c xs) = getAttribute k c"
  by (induction xs arbitrary: c) simp_all

lemma render_checkbox_id:
  "getAttribute ''data-annotation-id'' (fst (render_checkbox v st el c))
     = getAttribute ''data-annotation-id'' c"
  by (simp add: render_checkbox_def Let_def getAttribute_set_title split: prod.split)

lemma render_radio_id:
  "getAttribute ''data-annotation-id'' (fst (render_radio v st el c))
     = getAttribute ''data-annotation-id'' c"
  by (simp add: render_radio_def Let_def getAttribute_set_title split: prod.split)

lemma render_popup_id:
  "getAttribute ''data-annotation-id'' (render_popup v inner layer el c)
     = getAttribute ''data-annotation-id'' c"
  by (simp add: render_popup_def Let_def split: option.split)

lemma render_element_id:
  "getAttribute ''data-annotation-id'' (fst (render_element v inner layer st el c))
     = getAttribute ''data-annotation-id'' c"
  by (cases "cls el")
     (simp_all add: render_element_def render_checkbox_id render_radio_id render_popup_id)

lemma render_one_children:
  "\<exists>new. childNodes (layer_div (render_one v nr inner lp w d)) = childNodes (layer_div w) @ new
     \<and> annotation_ids new = (if renderable v lp d then [Some (AStr (data_id d))] else [])"
proof -
  let ?p = "element_parameters v lp d"
  obtain el h' where c: "create v nr (arrays w) ?p = (el, h')"
    by (cases "create v nr (arrays w) ?p")
  have r: "isRenderable el = renderable v lp d"
    using renderable_create[of v nr "arrays w" lp d] c by simp
  show ?thesis
  proof (cases "renderable v lp d")
    case False
    with r c show ?thesis by (simp add: render_one_def annotation_ids_def)
  next
    case True
    with r have ir: "isRenderable el" by simp
    obtain ign where cont: "container el = Some (fst (createContainer v nr (arrays w) ?p ign))"
      using create_container[of v nr "arrays w" ?p] c ir by simp
    let ?c = "fst (createContainer v nr (arrays w) ?p ign)"
    let ?st = "case annotationStorage w of Some st \<Rightarrow> st | None \<Rightarrow> Map.empty"
    obtain node st' where re: "render_element v inner (layer_div w) ?st el ?c = (node, st')"
      by (cases "render_element v inner (layer_div w) ?st el ?c")
    have "getAttribute ''data-annotation-id'' node = Some (AStr (data_id d))"
      using render_element_id[of v inner "layer_div w" ?st el ?c] re
      by (simp add: createContainer_id element_parameters_def)
    moreover have "childNodes (layer_div (render_one v nr inner lp w d))
                     = childNodes (layer_div w) @ [node]"
      by (simp add: render_one_def c ir cont re)
    ultimately show ?thesis using True by (simp add: annotation_ids_def)
  qed
qed

lemma render_each_children:
  "\<exists>new. childNodes (layer_div (render_each v nr inner lp w xs)) = childNodes (layer_div w) @ new
     \<and> annotation_ids new = map (\<lambda>d. Some (AStr (data_id d))) (filter (renderable v lp) xs)"
proof (induction xs arbitrary: w)
  case Nil
  show ?case by (simp add: annotation_ids_def)
next
  case (Cons d xs)
  obtain n1 where n1: "childNodes (layer_div (render_one v nr inner lp w d))
                         = childNodes (layer_div w) @ n1"
    "annotation_ids n1 = (if renderable v lp d then [Some (AStr (data_id d))] else [])"
    using render_one_children by blast
  obtain n2 where n2: "childNodes (layer_div (render_each v nr inner lp
                                      (render_one v nr inner lp w d) xs))
                         = childNodes (layer_div (render_one v nr inner lp w d)) @ n2"
    "annotation_ids n2 = map (\<lambda>d. Some (AStr (data_id d))) (filter (renderable v lp) xs)"
    using Cons.IH by blast
  have "childNodes (layer_div (render_each v nr inner lp w (d # xs)))
          = childNodes (layer_div w) @ (n1 @ n2)"
    using n1(1) n2(1) by simp
  moreover have "annotation_ids (n1 @ n2)
          = map (\<lambda>d. Some (AStr (data_id d))) (filter (renderable v lp) (d # xs))"
    using n1(2) n2(2) by (simp add: annotation_ids_def)
  ultimately show ?case by blast
qed

lemma render_indexed_each:
  "render_indexed v nr inner lp w xs = render_each v nr inner lp w (present xs)"
  by (induction xs arbitrary: w rule: present.induct) simp_all

lemma sort_annotations_acc:
  "sort_annotations xs s p =
     (s @ filter (\<lambda>d. annotationType d \<noteq> POPUP) (present xs))
     @ (p @ filter (\<lambda>d. annotationType d = POPUP) (present xs))"
  by (induction xs arbitrary: s p rule: present.induct) simp_all

lemma sort_annotations_partition:
  "sort_annotations xs [] [] =
     filter (\<lambda>d. annotationType d \<noteq> POPUP) (present xs)
     @ filter (\<lambda>d. annotationType d = POPUP) (present xs)"
  by (simp add: sort_annotations_acc)

lemma length_filter_partition:
  "length (filter P (filter Q xs @ filter (\<lambda>x. \<not> Q x) xs)) = length (filter P xs)"
  by (induction xs) simp_all

lemma render_each_append:
  "render_each v nr inner lp w (xs @ ys)
     = render_each v nr inner lp (render_each v nr inner lp w xs) ys"
  by (induction xs arbitrary: w) simp_all

lemma render_each_split:
  assumes "k < length xs"
  shows "render_each v nr inner lp w xs
     = render_each v nr inner lp
         (render_one v nr inner lp (render_each v nr inner lp w (take k xs)) (xs ! k))
         (drop (Suc k) xs)"
proof -
  from assms have "xs = take k xs @ (xs ! k # drop (Suc k) xs)"
    by (simp add: id_take_nth_drop)
  then have "render_each v nr inner lp w xs
      = render_each v nr inner lp w (take k xs @ (xs ! k # drop (Suc k) xs))"
    by simp
  then show ?thesis by (simp only: render_each_append render_each.simps)
qed

lemma querySelector_rendered:
  assumes "d \<in> set xs" and "renderable v lp d"
  shows "querySelector (layer_div (render_each v nr inner lp w xs)) (data_id d) \<noteq> None"
proof -
  obtain new where new:
    "childNodes (layer_div (render_each v nr inner lp w xs)) = childNodes (layer_div w) @ new"
    "annotation_ids new = map (\<lambda>d. Some (AStr (data_id d))) (filter (renderable v lp) xs)"
    using render_each_children by blast
  from assms have "Some (AStr (data_id d)) \<in> set (annotation_ids new)"
    by (simp add: new(2))
  then obtain e where "e \<in> set new" "getAttribute ''data-annotation-id'' e = Some (AStr (data_id d))"
    by (auto simp add: annotation_ids_def)
  then have "\<exists>e \<in> set (childNodes (layer_div (render_each v nr inner lp w xs))).
               has_annotation_id (data_id d) e"
    by (auto simp add: new(1) has_annotation_id_def)
  then show ?thesis by (auto simp add: querySelector_def find_None_iff)
qed

lemma popup_index_after_others:
  assumes "k < length (filter P xs @ filter (\<lambda>x. \<not> P x) xs)"
    and "\<not> P ((filter P xs @ filter (\<lambda>x. \<not> P x) xs) ! k)"
  shows "set (filter P xs) \<subseteq> set (take k (filter P xs @ filter (\<lambda>x. \<not> P x) xs))"
proof -
  have "length (filter P xs) \<le> k"
  proof (rule ccontr)
    assume "\<not> length (filter P xs) \<le> k"
    then have lt: "k < length (filter P xs)" by simp
    then have "(filter P xs @ filter (\<lambda>x. \<not> P x) xs) ! k = filter P xs ! k"
      by (simp add: nth_append)
    moreover from lt have "filter P xs ! k \<in> set (filter P xs)" by (rule nth_mem)
    ultimately have "P ((filter P xs @ filter (\<lambda>x. \<not> P x) xs) ! k)" by simp
    with assms(2) show False by blast
  qed
  then show ?thesis by simp
qed

lemma example_sorted:
  "sort_annotations [Some example_popup, None, Some example_data] [] []
     = [example_data, example_popup]"
  by (simp add: example_popup_def example_data_def)

section \<open>Facts about updating\<close>

lemma length_update_first [simp]: "length (update_first P f es) = length es"
  by (induction es) simp_all


lemma getAttribute_rescale_style [simp]:
  "getAttribute k (rescale_style a s f e) = getAttribute k e"
  by (simp add: rescale_style_def split: option.split prod.split)

lemma update_element_id:
  "getAttribute ''data-annotation-id'' (update_element v tr e)
     = getAttribute ''data-annotation-id'' e"
  by (simp add: update_element_def Let_def getAttribute_def[of _ "Elem _ _ _ _"])
     (simp add: getAttribute_def[symmetric])


lemma has_annotation_id_update_element [simp]:
  "has_annotation_id x (update_element v tr e) = has_annotation_id x e"
  by (simp add: has_annotation_id_def update_element_id)

lemma has_annotation_id_funpow [simp]:
  "has_annotation_id x ((update_element v tr ^^ n) e) = has_annotation_id x e"
  by (induction n) simp_all







lemma length_update_children [simp]: "length (update_children v tr es ds) = length es"
  by (induction ds arbitrary: es) simp_all











section \<open>Facts about checkboxes and radio buttons\<close>

lemma truthy_checkbox_default:
  "truthy (checkbox_default d) = (truthy (fieldValue d) \<and> fieldValue d \<noteq> JStr ''Off'')"
  by (simp add: checkbox_default_def js_and_def)

lemma truthy_radio_default: "truthy (radio_default d) = (fieldValue d = buttonValue d)"
  by (simp add: radio_default_def)

lemma hasAttribute_set_checked [simp]:
  "hasAttribute ''checked'' (set_checked b e) = (b \<or> hasAttribute ''checked'' e)"
  by (simp add: set_checked_def hasAttribute_getAttribute)

lemma checkbox_input_checked:
  "hasAttribute ''checked'' (checkbox_input v d x) = truthy x"
  "tagName (checkbox_input v d x) = ''input''"
  "getAttribute ''type'' (checkbox_input v d x) = Some (AStr ''checkbox'')"
  by (cases v; simp add: checkbox_input_def set_checked_def set_disabled_def
        hasAttribute_getAttribute)+

lemma radio_input_checked:
  "hasAttribute ''checked'' (radio_input v d x) = truthy x"
  "tagName (radio_input v d x) = ''input''"
  "getAttribute ''type'' (radio_input v d x) = Some (AStr ''radio'')"
  by (cases v; simp add: radio_input_def set_checked_def set_disabled_def
        hasAttribute_getAttribute)+

lemma childNodes_copy_style [simp]: "childNodes (copy_style a b e) = childNodes e"
  by (simp add: copy_style_def split: option.split)

lemma childNodes_set_title [simp]: "childNodes (set_title v d e) = childNodes e"
  by (simp add: set_title_def)

lemma widget_checked_aux:
  "\<exists>inp. childNodes (fst (render_checkbox v st el c))
            = childNodes c @ [inp, createElement ''span'']
      \<and> tagName inp = ''input''
      \<and> hasAttribute ''checked'' inp
          = (case (if v = Stored then st (data_id (data el)) else None) of
               Some x \<Rightarrow> truthy x
             | None \<Rightarrow> truthy (fieldValue (data el)) \<and> fieldValue (data el) \<noteq> JStr ''Off'')"
  by (simp add: render_checkbox_def getOrCreateValue_def Let_def checkbox_input_checked
        truthy_checkbox_default split: option.split)

lemma childNodes_border_line_style [simp]:
  "childNodes (border_line_style v st c) = childNodes c"
  by (cases st) (simp_all add: border_line_style_def)

lemma childNodes_border_styles [simp]: "childNodes (border_styles v d c) = childNodes c"
  by (simp add: border_styles_def Let_def split: option.split)

lemma createContainer_childNodes: "childNodes (fst (createContainer v nr h p ign)) = []"
  by (simp add: createContainer_def Let_def split: prod.split)

lemma render_one_renderable:
  assumes "renderable v lp d"
  shows "layer_div (render_one v nr inner lp w d)
    = appendChild
        (fst (render_element v inner (layer_div w)
                (case annotationStorage w of Some st \<Rightarrow> st | None \<Rightarrow> Map.empty)
                (fst (create v nr (arrays w) (element_parameters v lp d)))
                (fst (createContainer v nr (arrays w) (element_parameters v lp d)
                        (snd (constructor_args v (element_parameters v lp d)
                                (factory_class v d))))))) (layer_div w)"
proof -
  let ?p = "element_parameters v lp d"
  obtain el h' where c: "create v nr (arrays w) ?p = (el, h')"
    by (cases "create v nr (arrays w) ?p")
  have dp: "data ?p = d" by (simp add: element_parameters_def)
  from assms have ir: "isRenderable el"
    using renderable_create[of v nr "arrays w" lp d] c by simp
  have cont: "container el = Some (fst (createContainer v nr (arrays w) ?p
                 (snd (constructor_args v ?p (factory_class v d)))))"
    using create_container[of v nr "arrays w" ?p] c ir dp by simp
  show ?thesis
    by (simp add: render_one_def c ir cont split: prod.split)
qed

section \<open>The container\<close>





text \<open>
  Claim C4. \<open>_createContainer\<close> never modifies \<open>data.rect\<close>: whatever
  \<open>Util.normalizeRect\<close> does to the array it is handed, that array is a new one, so the
  entries of \<open>data.rect\<close> (and of every array that existed before the call) are the same
  afterwards, and a second creation for the same data yields the same container.
\<close>

theorem createContainer_keeps_data_rect:
  assumes "writes_only_argument nr" and "result_from_contents nr"
    and "rect (data p) < length h"
  shows "snd (createContainer v nr h p ign) ! rect (data p) = h ! rect (data p)
    \<and> (\<forall>q < length h. snd (createContainer v nr h p ign) ! q = h ! q)
    \<and> fst (createContainer v nr (snd (createContainer v nr h p ign)) p ign)
        = fst (createContainer v nr h p ign)"
proof -
  let ?h' = "snd (createContainer v nr h p ign)"
  let ?lit = "Rect4 (r0 (h ! rect (data p)))
                        (r3 (page_view p) - r1 (h ! rect (data p)) + r1 (page_view p))
                        (r2 (h ! rect (data p)))
                        (r3 (page_view p) - r3 (h ! rect (data p)) + r1 (page_view p))"
  have old: "\<forall>q < length h. ?h' ! q = h ! q"
    using createContainer_old_arrays[OF assms(1)] by blast
  with assms(3) have same: "?h' ! rect (data p) = h ! rect (data p)" by blast
  have "snd (nr (?h' @ [?lit]) (length ?h')) ! fst (nr (?h' @ [?lit]) (length ?h'))
         = snd (nr (h @ [?lit]) (length h)) ! fst (nr (h @ [?lit]) (length h))"
    by (rule result_from_contentsD[OF assms(2)]) simp_all
  with same have "fst (createContainer v nr ?h' p ign) = fst (createContainer v nr h p ign)"
    by (intro createContainer_depends) simp_all
  with old same show ?thesis by blast
qed


text \<open>
  An instance with a \<open>Util.normalizeRect\<close> that works in place: \<open>data.rect\<close> is still
  \<open>[5, 5, 15, 25]\<close> after the call, the normalised array \<open>[5, 75, 15, 95]\<close> is another
  one, and the second container equals the first.
\<close>

theorem createContainer_keeps_data_rect_witness:
  "writes_only_argument normalizeRect_in_place \<and> result_from_contents normalizeRect_in_place
   \<and> rect (data (example_parameters example_data 2)) < length example_heap
   \<and> snd (createContainer Display normalizeRect_in_place example_heap
             (example_parameters example_data 2) False) ! rect (data (example_parameters example_data 2))
       = example_heap ! rect (data (example_parameters example_data 2))
   \<and> example_heap ! rect (data (example_parameters example_data 2)) = Rect4 5 5 15 25
   \<and> snd (createContainer Display normalizeRect_in_place example_heap
             (example_parameters example_data 2) False) ! 1 = Rect4 5 75 15 95
   \<and> fst (createContainer Display normalizeRect_in_place
             (snd (createContainer Display normalizeRect_in_place example_heap
                     (example_parameters example_data 2) False))
             (example_parameters example_data 2) False)
      = fst (createContainer Display normalizeRect_in_place example_heap
               (example_parameters example_data 2) False)"
proof -
  have r: "rect (data (example_parameters example_data 2)) < length example_heap"
    by (simp add: example_parameters_def example_data_def example_heap_def)
  have one: "snd (createContainer Display normalizeRect_in_place example_heap
             (example_parameters example_data 2) False) ! 1 = Rect4 5 75 15 95"
    by (simp add: createContainer_heap normalizeRect_in_place_def example_parameters_def
        example_data_def example_heap_def ordered_corners_def)
  have zero: "example_heap ! rect (data (example_parameters example_data 2)) = Rect4 5 5 15 25"
    by (simp add: example_parameters_def example_data_def example_heap_def)
  note main = createContainer_keeps_data_rect
      [OF in_place_writes_only_argument in_place_result_from_contents r, of Display False]
  from main have a: "snd (createContainer Display normalizeRect_in_place example_heap
             (example_parameters example_data 2) False) ! rect (data (example_parameters example_data 2))
       = example_heap ! rect (data (example_parameters example_data 2))" by (rule conjunct1)
  from main have b: "fst (createContainer Display normalizeRect_in_place
             (snd (createContainer Display normalizeRect_in_place example_heap
                     (example_parameters example_data 2) False))
             (example_parameters example_data 2) False)
      = fst (createContainer Display normalizeRect_in_place example_heap
               (example_parameters example_data 2) False)" by (rule conjunct2 [THEN conjunct2])
  from in_place_writes_only_argument in_place_result_from_contents r a zero one b
  show ?thesis by (intro conjI)
qed

section \<open>What \<open>render\<close> appends\<close>

text \<open>
  Claim C1. \<open>AnnotationLayer.render\<close> keeps the children the layer div had and appends
  one child for each entry of the array that is not \<open>null\<close> and whose element, as
  \<open>AnnotationElementFactory.create\<close> constructs it, has \<open>isRenderable\<close> true: the new
  children carry the ids of exactly those entries, in the order in which the copy
  processes them, and there are as many of them as there are such entries. \<open>null\<close>
  entries and elements that are not renderable add nothing.
\<close>

theorem render_appends_renderable:
  "\<exists>new. childNodes (layer_div (render v nr inner lp w)) = childNodes (layer_div w) @ new
     \<and> annotation_ids new =
         map (\<lambda>d. Some (AStr (data_id d)))
           (filter (\<lambda>d. isRenderable (fst (create v nr h0 (element_parameters v lp d))))
              (if v = Stored then sort_annotations (annotations lp) [] []
               else present (annotations lp)))
     \<and> length new =
         length (filter (\<lambda>d. isRenderable (fst (create v nr h0 (element_parameters v lp d))))
                   (present (annotations lp)))"
proof -
  let ?xs = "if v = Stored then sort_annotations (annotations lp) [] []
             else present (annotations lp)"
  have r: "render v nr inner lp w = render_each v nr inner lp w ?xs"
    by (simp add: render_def render_indexed_each)
  obtain new where new:
    "childNodes (layer_div (render_each v nr inner lp w ?xs)) = childNodes (layer_div w) @ new"
    "annotation_ids new = map (\<lambda>d. Some (AStr (data_id d))) (filter (renderable v lp) ?xs)"
    using render_each_children by blast
  have len: "length (filter (renderable v lp) ?xs)
               = length (filter (renderable v lp) (present (annotations lp)))"
  proof (cases "v = Stored")
    case True
    then show ?thesis
      using length_filter_partition
        [of "renderable v lp" "\<lambda>d. annotationType d \<noteq> POPUP" "present (annotations lp)"]
      by (simp add: sort_annotations_partition)
  next
    case False
    then show ?thesis by simp
  qed
  from new(2) have "length (annotation_ids new) = length (filter (renderable v lp) ?xs)"
    by simp
  then have "length new = length (filter (renderable v lp) (present (annotations lp)))"
    using len by (simp add: annotation_ids_def)
  with new r show ?thesis by (simp only: renderable_create) blast
qed

section \<open>Updating finds the first element of each id\<close>




section \<open>Checked inputs\<close>

text \<open>
  Claim C7, as the copies have it. The \<open>input\<close> that a checkbox widget renders is checked
  if and only if \<open>data.fieldValue\<close> is set and differs from \<open>'Off'\<close>, and the one a radio
  button renders if and only if \<open>data.fieldValue\<close> equals \<open>data.buttonValue\<close>, wherever no
  annotation storage is consulted (\<open>Display\<close>, \<open>Scaled\<close>) or the storage holds no value
  for the annotation's id; that condition then becomes the stored value. When the storage
  already holds a value for the id, the input is checked if and only if that value is
  truthy.
\<close>

theorem widget_checked:
  "(\<exists>inp. childNodes (fst (render_checkbox v st el c))
            = childNodes c @ [inp, createElement ''span'']
      \<and> tagName inp = ''input'' \<and> getAttribute ''type'' inp = Some (AStr ''checkbox'')
      \<and> hasAttribute ''checked'' inp
          = (case (if v = Stored then st (data_id (data el)) else None) of
               Some x \<Rightarrow> truthy x
             | None \<Rightarrow> truthy (fieldValue (data el)) \<and> fieldValue (data el) \<noteq> JStr ''Off''))
   \<and> (\<exists>inp. childNodes (fst (render_radio v st el c))
            = childNodes c @ [inp, createElement ''span'']
      \<and> tagName inp = ''input'' \<and> getAttribute ''type'' inp = Some (AStr ''radio'')
      \<and> hasAttribute ''checked'' inp
          = (case (if v = Stored then st (data_id (data el)) else None) of
               Some x \<Rightarrow> truthy x
             | None \<Rightarrow> fieldValue (data el) = buttonValue (data el)))
   \<and> snd (render_checkbox v st el c)
       = (if v = Stored \<and> st (data_id (data el)) = None
          then st(data_id (data el) \<mapsto> checkbox_default (data el)) else st)
   \<and> snd (render_radio v st el c)
       = (if v = Stored \<and> st (data_id (data el)) = None
          then st(data_id (data el) \<mapsto> radio_default (data el)) else st)"
proof (intro conjI)
  show "\<exists>inp. childNodes (fst (render_checkbox v st el c))
            = childNodes c @ [inp, createElement ''span'']
      \<and> tagName inp = ''input'' \<and> getAttribute ''type'' inp = Some (AStr ''checkbox'')
      \<and> hasAttribute ''checked'' inp
          = (case (if v = Stored then st (data_id (data el)) else None) of
               Some x \<Rightarrow> truthy x
             | None \<Rightarrow> truthy (fieldValue (data el)) \<and> fieldValue (data el) \<noteq> JStr ''Off'')"
    by (simp add: render_checkbox_def getOrCreateValue_def Let_def checkbox_input_checked
        truthy_checkbox_default split: option.split)
  show "\<exists>inp. childNodes (fst (render_radio v st el c))
            = childNodes c @ [inp, createElement ''span'']
      \<and> tagName inp = ''input'' \<and> getAttribute ''type'' inp = Some (AStr ''radio'')
      \<and> hasAttribute ''checked'' inp
          = (case (if v = Stored then st (data_id (data el)) else None) of
               Some x \<Rightarrow> truthy x
             | None \<Rightarrow> fieldValue (data el) = buttonValue (data el))"
    by (simp add: render_radio_def getOrCreateValue_def Let_def radio_input_checked
        truthy_radio_default split: option.split)
  show "snd (render_checkbox v st el c)
       = (if v = Stored \<and> st (data_id (data el)) = None
          then st(data_id (data el) \<mapsto> checkbox_default (data el)) else st)"
    by (simp add: render_checkbox_def getOrCreateValue_def Let_def split: option.split)
  show "snd (render_radio v st el c)
       = (if v = Stored \<and> st (data_id (data el)) = None
          then st(data_id (data el) \<mapsto> radio_default (data el)) else st)"
    by (simp add: render_radio_def getOrCreateValue_def Let_def split: option.split)
qed


text \<open>
  With a storage that holds \<open>false\<close> for the id \<open>12R\<close> (the change listener of an earlier
  rendering stores the user's choice), the checkbox with \<open>fieldValue = 'Yes'\<close> is rendered
  unchecked by the \<open>Stored\<close> copy.
\<close>

theorem widget_checked_counterexample:
  "tagName (hd (childNodes (hd (childNodes (layer_div
      (render Stored normalizeRect_copy example_inner
         (example_layer_parameters [Some example_checkbox])
         (example_world\<lparr>annotationStorage := Some [''12R'' \<mapsto> JBool False]\<rparr>))))))) = ''input''
   \<and> \<not> hasAttribute ''checked'' (hd (childNodes (hd (childNodes (layer_div
      (render Stored normalizeRect_copy example_inner
         (example_layer_parameters [Some example_checkbox])
         (example_world\<lparr>annotationStorage := Some [''12R'' \<mapsto> JBool False]\<rparr>)))))))
   \<and> truthy (fieldValue example_checkbox) \<and> fieldValue example_checkbox \<noteq> JStr ''Off''"
proof -
  let ?lp = "example_layer_parameters [Some example_checkbox]"
  let ?w = "example_world\<lparr>annotationStorage := Some [''12R'' \<mapsto> JBool False]\<rparr>"
  let ?p = "element_parameters Stored ?lp example_checkbox"
  let ?c = "fst (createContainer Stored normalizeRect_copy example_heap ?p
                   (snd (constructor_args Stored ?p (factory_class Stored example_checkbox))))"
  let ?el = "fst (create Stored normalizeRect_copy example_heap ?p)"
  have ty: "annotationType example_checkbox = WIDGET" "fieldType example_checkbox = JStr ''Btn''"
    "radioButton example_checkbox = False" "checkBox example_checkbox = True"
    "data_id example_checkbox = ''12R''" "fieldValue example_checkbox = JStr ''Yes''"
    by (simp_all add: example_checkbox_def example_data_def)
  have fc: "factory_class Stored example_checkbox = CheckboxWidgetAnnotationElement"
    by (simp add: factory_class_def widget_class_def ty)
  have rb: "renderable Stored ?lp example_checkbox"
    by (simp add: renderable_def fc element_parameters_def example_layer_parameters_def)
  have r: "render Stored normalizeRect_copy example_inner ?lp ?w
        = render_one Stored normalizeRect_copy example_inner ?lp ?w example_checkbox"
    by (simp add: render_def example_layer_parameters_def ty)
  have el: "cls (fst (create Stored normalizeRect_copy h ?p)) = CheckboxWidgetAnnotationElement"
    "data (fst (create Stored normalizeRect_copy h ?p)) = example_checkbox" for h
    by (simp_all add: create_fields fc element_parameters_def)
  have w: "arrays ?w = example_heap" "layer_div ?w = createElement ''div''"
    "annotationStorage ?w = Some [''12R'' \<mapsto> JBool False]"
    by (simp_all add: example_world_def)
  have one: "layer_div (render_one Stored normalizeRect_copy example_inner ?lp ?w example_checkbox)
      = appendChild (fst (render_checkbox Stored [''12R'' \<mapsto> JBool False] ?el ?c))
          (createElement ''div'')"
    by (simp only: render_one_renderable[OF rb] render_element_def el(1) w kind.case
          option.case)
  obtain inp where inp:
    "childNodes (fst (render_checkbox Stored [''12R'' \<mapsto> JBool False] ?el ?c))
       = childNodes ?c @ [inp, createElement ''span'']"
    "tagName inp = ''input''"
    "hasAttribute ''checked'' inp
          = (case (if Stored = Stored then [''12R'' \<mapsto> JBool False] (data_id (data ?el)) else None) of
               Some x \<Rightarrow> truthy x
             | None \<Rightarrow> truthy (fieldValue (data ?el)) \<and> fieldValue (data ?el) \<noteq> JStr ''Off'')"
    using widget_checked_aux[of Stored "[''12R'' \<mapsto> JBool False]" ?el ?c] by blast
  from inp(3) have nc: "\<not> hasAttribute ''checked'' inp" by (simp add: el(2) ty)
  have "hd (childNodes (hd (childNodes (layer_div
      (render Stored normalizeRect_copy example_inner ?lp ?w))))) = inp"
    by (simp add: r one inp(1) createContainer_childNodes)
  with nc inp(2) show ?thesis by (simp add: ty)
qed

section \<open>Popups come last\<close>

text \<open>
  Claim C8. In the copy with \<open>AnnotationStorage\<close>, \<open>render\<close> processes the entries that
  are not popups first and the popups after them, each group in its input order (a stable
  partition of the entries that are not \<open>null\<close>). Hence, at the moment the popup at
  position \<open>k\<close> of that order is rendered, the layer div already holds the element of every
  renderable annotation that is not a popup, its parent among them: the selector for that
  annotation's id finds an element.
\<close>

theorem popups_rendered_last:
  "sort_annotations (annotations lp) [] [] =
     filter (\<lambda>d. annotationType d \<noteq> POPUP) (present (annotations lp))
     @ filter (\<lambda>d. annotationType d = POPUP) (present (annotations lp))
   \<and> render Stored nr inner lp w
       = render_each Stored nr inner lp w (sort_annotations (annotations lp) [] [])
   \<and> (\<forall>k < length (sort_annotations (annotations lp) [] []).
        annotationType (sort_annotations (annotations lp) [] [] ! k) = POPUP \<longrightarrow>
        render Stored nr inner lp w
          = render_each Stored nr inner lp
              (render_one Stored nr inner lp
                 (render_each Stored nr inner lp w
                    (take k (sort_annotations (annotations lp) [] [])))
                 (sort_annotations (annotations lp) [] [] ! k))
              (drop (Suc k) (sort_annotations (annotations lp) [] []))
        \<and> (\<forall>d \<in> set (present (annotations lp)).
              annotationType d \<noteq> POPUP
              \<and> isRenderable (fst (create Stored nr h0 (element_parameters Stored lp d)))
              \<longrightarrow> querySelector
                    (layer_div (render_each Stored nr inner lp w
                       (take k (sort_annotations (annotations lp) [] []))))
                    (data_id d) \<noteq> None))"
proof (intro conjI allI impI ballI)
  let ?s = "sort_annotations (annotations lp) [] []"
  let ?P = "\<lambda>d. annotationType d \<noteq> POPUP"
  show part: "?s = filter ?P (present (annotations lp))
                   @ filter (\<lambda>d. annotationType d = POPUP) (present (annotations lp))"
    by (rule sort_annotations_partition)
  show r: "render Stored nr inner lp w = render_each Stored nr inner lp w ?s"
    by (simp add: render_def)
  fix k assume k: "k < length ?s" and pk: "annotationType (?s ! k) = POPUP"
  show "render Stored nr inner lp w
          = render_each Stored nr inner lp
              (render_one Stored nr inner lp
                 (render_each Stored nr inner lp w (take k ?s)) (?s ! k))
              (drop (Suc k) ?s)"
    unfolding r by (rule render_each_split[OF k])
  fix d assume d: "d \<in> set (present (annotations lp))"
    and dr: "annotationType d \<noteq> POPUP
             \<and> isRenderable (fst (create Stored nr h0 (element_parameters Stored lp d)))"
  have s2: "?s = filter ?P (present (annotations lp))
                 @ filter (\<lambda>x. \<not> ?P x) (present (annotations lp))"
    by (simp add: part)
  have "set (filter ?P (present (annotations lp))) \<subseteq> set (take k ?s)"
    using popup_index_after_others[of k ?P "present (annotations lp)"] k pk
    unfolding s2[symmetric] by simp
  with d dr have "d \<in> set (take k ?s)" by auto
  moreover from dr have "renderable Stored lp d" by (simp add: renderable_create)
  ultimately show "querySelector
                    (layer_div (render_each Stored nr inner lp w (take k ?s)))
                    (data_id d) \<noteq> None"
    by (rule querySelector_rendered)
qed


text \<open>
  An instance: the array \<open>[popup, null, text]\<close>, where the popup's parent is the text
  annotation \<open>12R\<close>. The order of processing is \<open>[text, popup]\<close>, and the layer on which
  the popup is rendered holds the element with id \<open>12R\<close>.
\<close>

theorem popups_rendered_last_witness:
  "sort_annotations [Some example_popup, None, Some example_data] [] []
     = [example_data, example_popup]
   \<and> querySelector
        (layer_div (render_each Stored normalizeRect_copy example_inner
           (example_layer_parameters [Some example_popup, None, Some example_data])
           example_world
           (take 1 (sort_annotations [Some example_popup, None, Some example_data] [] []))))
        ''12R'' \<noteq> None"
proof -
  let ?lp = "example_layer_parameters [Some example_popup, None, Some example_data]"
  have a: "annotations ?lp = [Some example_popup, None, Some example_data]"
    by (simp add: example_layer_parameters_def)
  have k: "1 < length (sort_annotations (annotations ?lp) [] [])"
    by (simp add: a example_sorted)
  have pk: "annotationType (sort_annotations (annotations ?lp) [] [] ! 1) = POPUP"
    by (simp add: a example_sorted) (simp add: example_popup_def)
  have d: "example_data \<in> set (present (annotations ?lp))" by (simp add: a)
  have dr: "annotationType example_data \<noteq> POPUP
     \<and> isRenderable (fst (create Stored normalizeRect_copy example_heap
          (element_parameters Stored ?lp example_data)))"
    by (simp add: create_isRenderable element_parameters_def factory_class_def
        has_popup_or_text_def example_data_def)
  have id: "data_id example_data = ''12R''" by (simp add: example_data_def)
  from popups_rendered_last[of ?lp normalizeRect_copy example_inner example_world example_heap]
  have "\<forall>k<length (sort_annotations (annotations ?lp) [] []).
        annotationType (sort_annotations (annotations ?lp) [] [] ! k) = POPUP \<longrightarrow>
        (\<forall>d\<in>set (present (annotations ?lp)).
              annotationType d \<noteq> POPUP
              \<and> isRenderable (fst (create Stored normalizeRect_copy example_heap
                    (element_parameters Stored ?lp d)))
              \<longrightarrow> querySelector
                    (layer_div (render_each Stored normalizeRect_copy example_inner ?lp example_world
                       (take k (sort_annotations (annotations ?lp) [] []))))
                    (data_id d) \<noteq> None)"
    by blast
  with k pk d dr have "querySelector
                    (layer_div (render_each Stored normalizeRect_copy example_inner ?lp example_world
                       (take 1 (sort_annotations (annotations ?lp) [] []))))
                    (data_id example_data) \<noteq> None"
    by blast
  then show ?thesis by (simp only: a id example_sorted) simp
qed

section \<open>A pinned popup stays visible\<close>

text \<open>
  Claim C9. After \<open>render\<close>, whatever sequence of \<open>_show\<close>, \<open>_hide\<close> and \<open>_toggle\<close> is
  applied to a \<open>PopupElement\<close>, a pinned popup is never hidden: whenever \<open>pinned\<close> is
  true, \<open>hideElement\<close> does not carry the attribute \<open>hidden\<close>. Each of the three
  operations preserves this; \<open>_hide(false)\<close>, the \<open>mouseout\<close> handler, changes nothing on
  a pinned popup; \<open>_toggle\<close> always flips \<open>pinned\<close>.
\<close>

theorem popup_pinned_never_hidden:
  "popup_invariant (run_popup_ops xs (popup_render (new_PopupElement c hw)))
   \<and> (popup_invariant s \<longrightarrow>
        popup_invariant (show_popup pin s) \<and> popup_invariant (hide_popup unpin s)
        \<and> popup_invariant (toggle_popup s))
   \<and> (pinned s \<longrightarrow> hide_popup False s = s)
   \<and> pinned (toggle_popup s) = (\<not> pinned s)"
  by (simp add: popup_invariant_run popup_invariant_render popup_invariant_show
      popup_invariant_hide popup_invariant_toggle hide_popup_pinned_unchanged
      toggle_popup_def pinned_show_popup pinned_hide_popup)


text \<open>
  An instance: \<open>mouseover\<close>, \<open>click\<close>, \<open>mouseout\<close> on a popup annotation's element. The
  popup ends pinned and visible, and the \<open>mouseout\<close> changed nothing.
\<close>

theorem popup_pinned_never_hidden_witness:
  "pinned (run_popup_ops [Show False, Toggle, Hide False]
             (popup_render (new_PopupElement (createElement ''section'') False)))
   \<and> \<not> hasAttribute ''hidden''
        (hideElement (run_popup_ops [Show False, Toggle, Hide False]
             (popup_render (new_PopupElement (createElement ''section'') False))))
   \<and> hide_popup False (run_popup_ops [Show False, Toggle]
             (popup_render (new_PopupElement (createElement ''section'') False)))
       = run_popup_ops [Show False, Toggle]
             (popup_render (new_PopupElement (createElement ''section'') False))"
proof -
  let ?s0 = "popup_render (new_PopupElement (createElement ''section'') False)"
  have p2: "pinned (run_popup_ops [Show False, Toggle] ?s0)"
    by (simp add: toggle_popup_def pinned_show_popup pinned_hide_popup popup_render_def
      new_PopupElement_def)
  from popup_pinned_never_hidden[of "[Show False, Toggle, Hide False]"
      "createElement ''section''" False "run_popup_ops [Show False, Toggle] ?s0"]
  have inv: "popup_invariant (run_popup_ops [Show False, Toggle, Hide False] ?s0)"
    and h: "pinned (run_popup_ops [Show False, Toggle] ?s0) \<longrightarrow>
            hide_popup False (run_popup_ops [Show False, Toggle] ?s0)
              = run_popup_ops [Show False, Toggle] ?s0"
    by blast+
  from inv example_popup_run
  have "\<not> hasAttribute ''hidden''
          (hideElement (run_popup_ops [Show False, Toggle, Hide False] ?s0))"
    unfolding popup_invariant_def by blast
  with example_popup_run h p2 show ?thesis by blast
qed

section \<open>The factory returns an element\<close>

text \<open>
  Claim C10, as the code has it. \<open>AnnotationElementFactory.create\<close> returns an element
  exactly when the data carries what the constructor of its class reads: \<open>data.rect\<close>
  for a renderable element, \<open>data.borderStyle\<close> for a renderable element whose border
  is not ignored, \<open>data.file\<close> for a file attachment (with a file name that
  \<open>getFilenameFromUrl\<close>, \<open>stringToPDFString\<close> and the link service accept); on
  other data it throws. On data that carries them it is the factory \<open>create\<close> of the
  sections above. In the default cases, an \<open>annotationType\<close> without a \<open>case\<close> label
  and a widget whose \<open>fieldType\<close> is none of \<open>'Tx'\<close>, \<open>'Btn'\<close>, \<open>'Ch'\<close>, nothing is
  read and an element is returned whatever is missing: a plain \<open>AnnotationElement\<close>,
  respectively a \<open>WidgetAnnotationElement\<close>, with \<open>isRenderable\<close> false and no
  container, the store untouched; \<open>AnnotationLayer.render\<close> then leaves the layer (and
  everything else) as it was.
\<close>

theorem create_returns_on_complete_data:
  "((\<exists>el. fst (create_received v nr announce h p r) = Inr el)
      = carries_what_is_read v announce p r)
   \<and> (carries_what_is_read v announce p r \<longrightarrow>
        create_received v nr announce h p r
          = (Inr (fst (create v nr h p)), snd (create v nr h p)))
   \<and> (\<not> recognized_type v (annotationType (data p))
        \<or> (annotationType (data p) = WIDGET
            \<and> \<not> recognized_fieldType (fieldType (data p))) \<longrightarrow>
        create_received v nr announce h p r = (Inr (fst (create v nr h p)), h)
        \<and> \<not> isRenderable (fst (create v nr h p))
        \<and> container (fst (create v nr h p)) = None
        \<and> cls (fst (create v nr h p))
            = (if annotationType (data p) = WIDGET then WidgetAnnotationElement
               else AnnotationElement)
        \<and> data (fst (create v nr h p)) = data p
        \<and> render_one v nr inner lp w (data p) = w
        \<and> render v nr inner (lp\<lparr>annotations := [Some (data p)]\<rparr>) w = w)"
proof (intro conjI impI)
  show "(\<exists>el. fst (create_received v nr announce h p r) = Inr el)
      = carries_what_is_read v announce p r"
    by (rule create_received_returns)
next
  assume "carries_what_is_read v announce p r"
  then show "create_received v nr announce h p r
          = (Inr (fst (create v nr h p)), snd (create v nr h p))"
    by (rule create_received_complete)
next
  assume dflt: "\<not> recognized_type v (annotationType (data p))
        \<or> (annotationType (data p) = WIDGET
            \<and> \<not> recognized_fieldType (fieldType (data p)))"
  let ?d = "data p"
  have k: "factory_class v ?d
             = (if annotationType ?d = WIDGET then WidgetAnnotationElement
                else AnnotationElement)"
  proof (cases "annotationType ?d = WIDGET")
    case True
    with dflt have "\<not> recognized_fieldType (fieldType ?d)"
      by (auto simp add: recognized_type_def)
    with True show ?thesis by (simp add: factory_class_widget_default)
  next
    case False
    with dflt show ?thesis by (simp add: factory_class_default)
  qed
  have nr: "\<And>q h'. data q = ?d \<Longrightarrow> \<not> isRenderable (fst (create v nr h' q))"
    by (simp add: create_isRenderable k)
  have a: "\<not> isRenderable (fst (create v nr h p))" using nr by blast
  have e: "snd (create v nr h p) = h" using a by (rule create_not_renderable)
  have ca: "\<not> fst (constructor_args v p (factory_class v (data p)))"
    using a by (simp add: create_isRenderable)
  have nf: "factory_class v (data p) \<noteq> FileAttachmentAnnotationElement"
    by (simp add: k)
  have "carries_what_is_read v announce p r"
    using ca nf by (rule carries_not_renderable)
  then have "create_received v nr announce h p r
          = (Inr (fst (create v nr h p)), snd (create v nr h p))"
    by (rule create_received_complete)
  then show "create_received v nr announce h p r = (Inr (fst (create v nr h p)), h)"
    by (simp add: e)
  show "\<not> isRenderable (fst (create v nr h p))" by (rule a)
  show "container (fst (create v nr h p)) = None" using a by (simp add: create_container)
  show "cls (fst (create v nr h p))
        = (if annotationType (data p) = WIDGET then WidgetAnnotationElement
           else AnnotationElement)"
    using k by (simp add: create_fields)
  show "data (fst (create v nr h p)) = data p" by (simp add: create_fields)
  have ep: "data (element_parameters v lp' ?d) = ?d" for lp'
    by (simp add: element_parameters_def)
  have f: "render_one v nr inner lp' w ?d = w" for lp'
    by (rule render_one_not_renderable) (rule nr[OF ep])
  show "render_one v nr inner lp w (data p) = w" by (rule f)
  show "render v nr inner (lp\<lparr>annotations := [Some (data p)]\<rparr>) w = w"
    using f[of "lp\<lparr>annotations := [Some ?d]\<rparr>"]
    by (cases "annotationType ?d = POPUP"; cases "v = Stored") (simp_all add: render_def)
qed

text \<open>
  An instance: an annotation of the unknown type 99 in the \<open>Display\<close> copy, whose data
  has neither \<open>rect\<close> nor \<open>borderStyle\<close> nor \<open>file\<close>.
\<close>

theorem create_returns_on_complete_data_witness:
  "\<not> recognized_type Display (annotationType (example_data\<lparr>annotationType := OtherType 99\<rparr>))
   \<and> carries_what_is_read Display example_announce
        (example_parameters (example_data\<lparr>annotationType := OtherType 99\<rparr>) 1)
        example_nothing
   \<and> create_received Display normalizeRect_copy example_announce example_heap
        (example_parameters (example_data\<lparr>annotationType := OtherType 99\<rparr>) 1)
        example_nothing
       = (Inr (fst (create Display normalizeRect_copy example_heap
            (example_parameters (example_data\<lparr>annotationType := OtherType 99\<rparr>) 1))),
          example_heap)
   \<and> \<not> isRenderable (fst (create Display normalizeRect_copy example_heap
        (example_parameters (example_data\<lparr>annotationType := OtherType 99\<rparr>) 1)))
   \<and> cls (fst (create Display normalizeRect_copy example_heap
        (example_parameters (example_data\<lparr>annotationType := OtherType 99\<rparr>) 1)))
       = AnnotationElement
   \<and> render Display normalizeRect_copy example_inner
        ((example_layer_parameters [])
           \<lparr>annotations := [Some (example_data\<lparr>annotationType := OtherType 99\<rparr>)]\<rparr>)
        example_world = example_world"
proof -
  let ?d = "example_data\<lparr>annotationType := OtherType 99\<rparr>"
  have h: "\<not> recognized_type Display (annotationType ?d)"
    by (simp add: recognized_type_def example_data_def)
  have dp: "data (example_parameters ?d 1) = ?d" by (simp add: example_parameters_def)
  have w: "annotationType ?d \<noteq> WIDGET" by (simp add: example_data_def)
  note main = create_returns_on_complete_data [of Display normalizeRect_copy example_announce
      example_heap "example_parameters ?d 1" example_nothing example_inner
      "example_layer_parameters []" example_world]
  from main h w dp have rest:
    "create_received Display normalizeRect_copy example_announce example_heap
        (example_parameters ?d 1) example_nothing
       = (Inr (fst (create Display normalizeRect_copy example_heap
            (example_parameters ?d 1))), example_heap)
     \<and> \<not> isRenderable (fst (create Display normalizeRect_copy example_heap
          (example_parameters ?d 1)))
     \<and> cls (fst (create Display normalizeRect_copy example_heap
          (example_parameters ?d 1))) = AnnotationElement
     \<and> render Display normalizeRect_copy example_inner
          ((example_layer_parameters [])\<lparr>annotations := [Some ?d]\<rparr>)
          example_world = example_world"
    by simp
  then have "\<exists>el. fst (create_received Display normalizeRect_copy example_announce
        example_heap (example_parameters ?d 1) example_nothing) = Inr el"
    by simp
  with main have "carries_what_is_read Display example_announce
        (example_parameters ?d 1) example_nothing"
    by blast
  with rest h show ?thesis by simp
qed

text \<open>
  A file attachment whose data has \<open>rect\<close> and \<open>borderStyle\<close> but no \<open>file\<close>: the
  constructor throws a \<open>TypeError\<close> and \<open>create\<close> returns no element.
\<close>

theorem create_file_attachment_counterexample:
  "fst (create_received Display normalizeRect_copy example_announce example_heap
          (example_parameters example_attachment 1) example_no_file)
     = Inl (TypeError ''Cannot read property filename of undefined'')
   \<and> (\<forall>el. fst (create_received Display normalizeRect_copy example_announce example_heap
          (example_parameters example_attachment 1) example_no_file) \<noteq> Inr el)"
  by (simp add: create_received_def new_element_received_def super_received_cases
      factory_class_def example_parameters_def example_attachment_def example_data_def
      example_no_file_def)

section \<open>Properties of the print service\<close>


text \<open>
  Claim C5. \<open>createPrintService\<close> throws an \<open>Error\<close> whenever a print service is active,
  leaving the state as it was; otherwise it creates a new \<open>PDFPrintService\<close> (a reference
  no earlier object has), makes it the active service and returns it. The active service
  is therefore never replaced by a call that succeeds.
\<close>

theorem createPrintService_single_active:
  "(fst (createPrintService s pages cont)
      = Inl (Error ''The print service is created and active.''))
     = (activeService s \<noteq> None)
   \<and> (fst (createPrintService s pages cont) = Inr (length (services s)))
     = (activeService s = None)
   \<and> (case createPrintService s pages cont of
        (Inl e, s') \<Rightarrow> s' = s
      | (Inr this, s') \<Rightarrow>
          activeService s' = Some this
          \<and> services s' = services s @ [new_PDFPrintService pages cont]
          \<and> services s' ! this = new_PDFPrintService pages cont
          \<and> s' = s\<lparr>services := services s', activeService := Some this\<rparr>)
   \<and> activeService (snd (createPrintService s pages cont))
     = (case activeService s of
          None \<Rightarrow> Some (length (services s))
        | Some a \<Rightarrow> Some a)"
  by (cases "activeService s") (simp_all add: createPrintService_def Let_def)



end
